theory Spec2Isabelle
  imports Main "HOL-Library.List_Lexorder" "HOL-Library.AList"
begin

section \<open>JavaScript strings\<close>

text \<open>
  A JavaScript string is the sequence of its UTF-16 code units, so it is modelled as a list
  of integers, each from 0 to 65535. A string literal of the source is written \<open>js ''...''\<close>: the
  code units of its (ASCII) characters. The built-in operations the program calls are
  written out on code units.
\<close>

type_synonym jstring = "int list"

definition js :: "string \<Rightarrow> jstring" where
  "js s = map of_char s"

text \<open>
  White space as \<open>String.prototype.trim\<close> and the class \<open>\s\<close> of a regular expression
  see it: the characters \<open>WhiteSpace\<close> and \<open>LineTerminator\<close> of the language, which are
  TAB, LF, VT, FF, CR, SPACE, U+00A0, U+1680, U+2000 to U+200A, U+2028, U+2029, U+202F,
  U+205F, U+3000 and U+FEFF.
\<close>

definition is_space :: "int \<Rightarrow> bool" where
  "is_space c =
     ((9 \<le> c \<and> c \<le> 13) \<or> c = 32 \<or> c = 0xA0 \<or> c = 0x1680 \<or> (0x2000 \<le> c \<and> c \<le> 0x200A) \<or>
      c = 0x2028 \<or> c = 0x2029 \<or> c = 0x202F \<or> c = 0x205F \<or> c = 0x3000 \<or> c = 0xFEFF)"

definition is_lower :: "int \<Rightarrow> bool" where
  "is_lower c = (97 \<le> c \<and> c \<le> 122)"

definition is_upper :: "int \<Rightarrow> bool" where
  "is_upper c = (65 \<le> c \<and> c \<le> 90)"

definition is_digit :: "int \<Rightarrow> bool" where
  "is_digit c = (48 \<le> c \<and> c \<le> 57)"

definition is_alnum :: "int \<Rightarrow> bool" where
  "is_alnum c = (is_lower c \<or> is_upper c \<or> is_digit c)"

text \<open>The class \<open>\w\<close> of a regular expression without the unicode and ignore-case flags:
  \<open>[A-Za-z0-9_]\<close>. The underscore is 95 and the hyphen is 45.\<close>

definition is_word :: "int \<Rightarrow> bool" where
  "is_word c = (is_alnum c \<or> c = 95)"

text \<open>
  \<open>String.prototype.toUpperCase\<close>. The program only compares its result with an ASCII
  literal, so the model is exact where the upper-case form of a character contains an
  ASCII character: the letters \<open>a\<close> to \<open>z\<close> and the seventeen characters outside ASCII
  listed here (sharp s, dotless i, long s, the ligatures, and six letters whose upper-case
  form is an ASCII letter with a combining mark). Every other code unit is left as it is;
  its upper-case form in JavaScript has no ASCII code unit either.
\<close>

definition upper_unit :: "int \<Rightarrow> int list" where
  "upper_unit c =
     (if is_lower c then [c - 32]
      else if c = 0xDF then [0x53, 0x53]
      else if c = 0x131 then [0x49]
      else if c = 0x149 then [0x2BC, 0x4E]
      else if c = 0x17F then [0x53]
      else if c = 0x1F0 then [0x4A, 0x30C]
      else if c = 0x1E96 then [0x48, 0x331]
      else if c = 0x1E97 then [0x54, 0x308]
      else if c = 0x1E98 then [0x57, 0x30A]
      else if c = 0x1E99 then [0x59, 0x30A]
      else if c = 0x1E9A then [0x41, 0x2BE]
      else if c = 0xFB00 then [0x46, 0x46]
      else if c = 0xFB01 then [0x46, 0x49]
      else if c = 0xFB02 then [0x46, 0x4C]
      else if c = 0xFB03 then [0x46, 0x46, 0x49]
      else if c = 0xFB04 then [0x46, 0x46, 0x4C]
      else if c = 0xFB05 then [0x53, 0x54]
      else if c = 0xFB06 then [0x53, 0x54]
      else [c])"

definition toUpperCase :: "jstring \<Rightarrow> jstring" where
  "toUpperCase s = concat (map upper_unit s)"

text \<open>\<open>trim\<close>, \<open>startsWith\<close>, \<open>includes\<close> and \<open>substring(0, n)\<close>.\<close>

definition trim :: "jstring \<Rightarrow> jstring" where
  "trim s = rev (dropWhile is_space (rev (dropWhile is_space s)))"

definition startsWith :: "jstring \<Rightarrow> jstring \<Rightarrow> bool" where
  "startsWith s p = (take (length p) s = p)"

fun str_includes :: "jstring \<Rightarrow> jstring \<Rightarrow> bool" where
  "str_includes [] sub = (sub = [])"
| "str_includes (c # cs) sub = (startsWith (c # cs) sub \<or> str_includes cs sub)"

definition substring0 :: "nat \<Rightarrow> jstring \<Rightarrow> jstring" where
  "substring0 n s = take n s"

text \<open>The truthiness of a value that is either \<open>undefined\<close> (\<open>None\<close>) or a string: the
  empty string and \<open>undefined\<close> are falsy.\<close>

definition truthy :: "jstring option \<Rightarrow> bool" where
  "truthy v = (case v of None \<Rightarrow> False | Some s \<Rightarrow> s \<noteq> [])"


section \<open>The Link Extractor: \<open>POST /api/parse-csv\<close>\<close>

text \<open>
  The CSV text is parsed by the library \<open>csv-parse\<close>, called with \<open>columns: true\<close>,
  \<open>skip_empty_lines: true\<close> and \<open>trim: true\<close>. The library is not part of the repository;
  the handler only iterates over what the parser yields. The parser is therefore a
  parameter of the handler, and its result is the sequence that the \<open>for await\<close> loop sees:
  records one after the other, ended either by the end of the input or by an exception
  carrying a message.

  With \<open>columns: true\<close> a record is an object whose keys are the names of the header row,
  so a record is the list of its properties (key and value, the keys distinct) in key
  order; \<open>Object.keys\<close> is the list of the keys and \<open>record[key]\<close> is the lookup,
  \<open>undefined\<close> being \<open>None\<close>.
\<close>

type_synonym csv_record = "(jstring \<times> jstring) list"

datatype csv_stream = Done | Throw jstring | Yield csv_record csv_stream

definition Object_keys :: "csv_record \<Rightarrow> jstring list" where
  "Object_keys record = map fst record"

definition lookup :: "csv_record \<Rightarrow> jstring \<Rightarrow> jstring option" where
  "lookup record key = map_of record key"

record link_record =
  row :: nat
  link :: jstring

text \<open>One turn of the loop body over \<open>record\<close>: the links collected so far, with the link
  of this record pushed when it qualifies.\<close>

definition process_record :: "nat \<Rightarrow> link_record list \<Rightarrow> csv_record \<Rightarrow> link_record list" where
  "process_record rowNumber links record =
     (let linkColumn = find (\<lambda>key. toUpperCase key = js ''LINKS'') (Object_keys record) in
      case linkColumn of
        None \<Rightarrow> links
      | Some key \<Rightarrow>
          if key \<noteq> [] \<and> truthy (lookup record key) then
            (let link = trim (the (lookup record key)) in
             if str_includes link (js ''youtube.com'') \<or> str_includes link (js ''youtu.be'')
             then links @ [\<lparr>row = rowNumber, link = link\<rparr>]
             else links)
          else links)"

text \<open>The \<open>for await\<close> loop with its two variables \<open>rowNumber\<close> and \<open>links\<close>; an exception
  of the parser leaves the loop with the message (\<open>Inl\<close>).\<close>

fun parse_loop :: "nat \<Rightarrow> link_record list \<Rightarrow> csv_stream \<Rightarrow> jstring + link_record list" where
  "parse_loop rowNumber links Done = Inr links"
| "parse_loop rowNumber links (Throw msg) = Inl msg"
| "parse_loop rowNumber links (Yield record rest) =
     parse_loop (rowNumber + 1) (process_record rowNumber links record) rest"

text \<open>The three responses of the handler: status 400 without a file, status 200 with
  \<open>success\<close>, \<open>links\<close> and \<open>totalLinks\<close>, status 500 with \<open>error\<close> and \<open>details\<close>.\<close>

datatype csv_response =
    NoFileUploaded
  | ParseSuccess "link_record list" nat
  | ParseError jstring jstring

definition csv_status :: "csv_response \<Rightarrow> nat" where
  "csv_status r = (case r of NoFileUploaded \<Rightarrow> 400 | ParseSuccess _ _ \<Rightarrow> 200 | ParseError _ _ \<Rightarrow> 500)"

definition parse_csv :: "(jstring \<Rightarrow> csv_stream) \<Rightarrow> jstring option \<Rightarrow> csv_response" where
  "parse_csv parse file =
     (case file of
        None \<Rightarrow> NoFileUploaded
      | Some csvContent \<Rightarrow>
          (case parse_loop 2 [] (parse csvContent) of
             Inr links \<Rightarrow> ParseSuccess links (length links)
           | Inl msg \<Rightarrow> ParseError (js ''Failed to parse CSV file'') msg))"

text \<open>What a parser result consists of: the records it yields and how it ends.\<close>

fun records :: "csv_stream \<Rightarrow> csv_record list" where
  "records Done = []"
| "records (Throw msg) = []"
| "records (Yield r rest) = r # records rest"

fun failure :: "csv_stream \<Rightarrow> jstring option" where
  "failure Done = None"
| "failure (Throw msg) = Some msg"
| "failure (Yield r rest) = failure rest"

text \<open>The specification's words. The selected column of a record is the first key whose
  upper-case form is \<open>LINKS\<close>; a record qualifies when its value in that column is
  non-empty after trimming and the trimmed value contains a host marker.\<close>

definition link_column :: "csv_record \<Rightarrow> jstring option" where
  "link_column r = find (\<lambda>key. toUpperCase key = js ''LINKS'') (map fst r)"

definition column_value :: "csv_record \<Rightarrow> jstring option" where
  "column_value r = (case link_column r of None \<Rightarrow> None | Some k \<Rightarrow> map_of r k)"

definition has_marker :: "jstring \<Rightarrow> bool" where
  "has_marker s = (str_includes s (js ''youtube.com'') \<or> str_includes s (js ''youtu.be''))"

definition qualifies :: "csv_record \<Rightarrow> bool" where
  "qualifies r =
     (case column_value r of
        None \<Rightarrow> False
      | Some v \<Rightarrow> trim v \<noteq> [] \<and> has_marker (trim v))"

definition numbered :: "csv_record list \<Rightarrow> (nat \<times> csv_record) list" where
  "numbered rs = zip [2 ..< 2 + length rs] rs"

definition expected_links :: "csv_record list \<Rightarrow> link_record list" where
  "expected_links rs =
     map (\<lambda>(n, r). \<lparr>row = n, link = trim (the (column_value r))\<rparr>)
       (filter (\<lambda>(n, r). qualifies r) (numbered rs))"


section \<open>The Session Download Orchestrator\<close>

subsection \<open>Title, file names and the file-name header\<close>

text \<open>The decimal numeral of a number, as a template literal prints it.\<close>

definition digit_char :: "nat \<Rightarrow> int" where
  "digit_char d = 48 + int d"

function decimal :: "nat \<Rightarrow> jstring" where
  "decimal n = (if n < 10 then [digit_char n] else decimal (n div 10) @ [digit_char (n mod 10)])"
  by pat_completeness auto
termination
  by (relation "measure id") auto

declare decimal.simps [simp del]

text \<open>\<open>.replace(/\s+/g, '_')\<close>: every maximal run of white space becomes one underscore.\<close>

function replace_spaces :: "jstring \<Rightarrow> jstring" where
  "replace_spaces [] = []"
| "replace_spaces (c # cs) =
     (if is_space c then 95 # replace_spaces (dropWhile is_space cs)
      else c # replace_spaces cs)"
  by pat_completeness auto
termination
  by (relation "measure length") (auto simp: length_dropWhile_le less_Suc_eq_le)

text \<open>\<open>.replace(/[^\w\s-]/g, '')\<close>: every character that is not a word character, white
  space or a hyphen is removed.\<close>

definition remove_special :: "jstring \<Rightarrow> jstring" where
  "remove_special s = filter (\<lambda>c. is_word c \<or> is_space c \<or> c = 45) s"

text \<open>The title computed from the output of \<open>yt-dlp --get-title\<close>.\<close>

definition clean_title :: "jstring \<Rightarrow> jstring" where
  "clean_title stdout = substring0 50 (replace_spaces (remove_special (trim stdout)))"

definition audio_prefix :: "nat \<Rightarrow> jstring" where
  "audio_prefix timestamp = (js ''audio_'') @ decimal timestamp"

definition expectedMp3 :: "nat \<Rightarrow> jstring" where
  "expectedMp3 timestamp = audio_prefix timestamp @ (js ''.mp3'')"

text \<open>\<open>videoTitle\<close>: the default \<open>audio_<timestamp>\<close>, replaced by the cleaned title when
  the metadata query answers (\<open>None\<close>: the query failed or ran into its timeout).\<close>

definition videoTitle :: "nat \<Rightarrow> jstring option \<Rightarrow> jstring" where
  "videoTitle timestamp title_stdout =
     (case title_stdout of None \<Rightarrow> audio_prefix timestamp | Some out \<Rightarrow> clean_title out)"

text \<open>
  \<open>encodeURIComponent\<close>: the unreserved characters (letters, digits and
  \<open>- _ . ! ~ * ' ( )\<close>) stay; every other character becomes the bytes of its UTF-8
  encoding, each written \<open>%XX\<close> with upper-case hexadecimal digits. A surrogate code
  unit without its partner makes the function throw a \<open>URIError\<close> (\<open>None\<close>).
\<close>

definition hex_digit :: "int \<Rightarrow> int" where
  "hex_digit d = (if d < 10 then 48 + d else 55 + d)"

definition uri_unreserved :: "int \<Rightarrow> bool" where
  "uri_unreserved c = (is_alnum c \<or> c \<in> set (js ''-_.!~*()'') \<or> c = 39)"

definition percent :: "int \<Rightarrow> jstring" where
  "percent b = [37, hex_digit (b div 16), hex_digit (b mod 16)]"

definition utf8 :: "int \<Rightarrow> int list" where
  "utf8 cp =
     (if cp < 0x80 then [cp]
      else if cp < 0x800 then [0xC0 + cp div 64, 0x80 + cp mod 64]
      else if cp < 0x10000 then
        [0xE0 + cp div 4096, 0x80 + (cp div 64) mod 64, 0x80 + cp mod 64]
      else [0xF0 + cp div 262144, 0x80 + (cp div 4096) mod 64,
            0x80 + (cp div 64) mod 64, 0x80 + cp mod 64])"

definition escape :: "int \<Rightarrow> jstring" where
  "escape cp = concat (map percent (utf8 cp))"

fun encodeURIComponent :: "jstring \<Rightarrow> jstring option" where
  "encodeURIComponent [] = Some []"
| "encodeURIComponent (c # cs) =
     (if uri_unreserved c then map_option ((#) c) (encodeURIComponent cs)
      else if 0xD800 \<le> c \<and> c \<le> 0xDBFF then
        (case cs of
           [] \<Rightarrow> None
         | d # ds \<Rightarrow>
             if 0xDC00 \<le> d \<and> d \<le> 0xDFFF
             then map_option ((@) (escape (0x10000 + (c - 0xD800) * 1024 + (d - 0xDC00))))
                    (encodeURIComponent ds)
             else None)
      else if 0xDC00 \<le> c \<and> c \<le> 0xDFFF then None
      else map_option ((@) (escape c)) (encodeURIComponent cs))"


subsection \<open>Server state\<close>

text \<open>
  The two module-level stores, the files of \<open>TEMP_DIR\<close>, and the part of the runtime that
  the handlers act on: the pending \<open>setTimeout\<close> callbacks, the clock in milliseconds and
  the child processes that have been sent a signal (their \<open>killed\<close> flag).

  A session identifier is whatever \<open>req.body.sessionId\<close> holds: \<open>None\<close> is \<open>undefined\<close>.
  \<open>cancelledSessions\<close> is a \<open>Set\<close> and \<open>activeProcesses\<close> a \<open>Map\<close> of such values. A file
  of the directory is its base name and its bytes.
\<close>

record server =
  cancelledSessions :: "jstring option set"
  activeProcesses :: "jstring option \<rightharpoonup> nat"
  signalled :: "nat set"
  timers :: "(nat \<times> jstring option) list"
  now :: nat
  temp_dir :: "(jstring \<times> jstring) list"

definition initial_server :: server where
  "initial_server =
     \<lparr>cancelledSessions = {}, activeProcesses = Map.empty, signalled = {}, timers = [],
      now = 0, temp_dir = []\<rparr>"

text \<open>\<open>POST /api/cancel\<close>: mark, kill the recorded process, schedule the removal of the
  mark in five minutes.\<close>

definition cancel :: "jstring option \<Rightarrow> server \<Rightarrow> server" where
  "cancel sid st =
     (if truthy sid then
        st\<lparr>cancelledSessions := insert sid (cancelledSessions st),
           signalled := (case activeProcesses st sid of
                           None \<Rightarrow> signalled st
                         | Some p \<Rightarrow> insert p (signalled st)),
           timers := timers st @ [(now st + 5 * 60 * 1000, sid)]\<rparr>
      else st)"

text \<open>\<open>POST /api/clear-cancel\<close>.\<close>

definition clearCancel :: "jstring option \<Rightarrow> server \<Rightarrow> server" where
  "clearCancel sid st =
     (if truthy sid then st\<lparr>cancelledSessions := cancelledSessions st - {sid}\<rparr> else st)"

text \<open>
  Time passing by \<open>n\<close> milliseconds with no handler running: every pending timer that is
  due fires, and its callback \<open>() => cancelledSessions.delete(sessionId)\<close> deletes the
  identifier its own \<open>cancel\<close> call captured. The callbacks only delete, so the order in
  which the due ones fire does not show in the result.
\<close>

definition elapse :: "nat \<Rightarrow> server \<Rightarrow> server" where
  "elapse n st =
     (let t = now st + n;
          due = filter (\<lambda>(d, sid). d \<le> t) (timers st) in
      st\<lparr>now := t,
         cancelledSessions := cancelledSessions st - set (map snd due),
         timers := filter (\<lambda>(d, sid). \<not> d \<le> t) (timers st)\<rparr>)"

text \<open>What can run on the event loop while a download handler waits at an \<open>await\<close>.\<close>

datatype event = Cancel "jstring option" | ClearCancel "jstring option" | Elapse nat

fun handle :: "event \<Rightarrow> server \<Rightarrow> server" where
  "handle (Cancel sid) st = cancel sid st"
| "handle (ClearCancel sid) st = clearCancel sid st"
| "handle (Elapse n) st = elapse n st"

definition run_events :: "event list \<Rightarrow> server \<Rightarrow> server" where
  "run_events evs st = fold handle evs st"


subsection \<open>Files of the temp directory\<close>

definition existsSync :: "(jstring \<times> jstring) list \<Rightarrow> jstring \<Rightarrow> bool" where
  "existsSync dir name = (map_of dir name \<noteq> None)"

text \<open>\<open>readdirSync\<close> lists the names in the order of their code units.\<close>

definition readdirSync :: "(jstring \<times> jstring) list \<Rightarrow> jstring list" where
  "readdirSync dir = sort (map fst dir)"

definition renameSync :: "jstring \<Rightarrow> jstring \<Rightarrow> (jstring \<times> jstring) list \<Rightarrow> (jstring \<times> jstring) list" where
  "renameSync old new dir =
     map (\<lambda>(n, bytes). if n = old then (new, bytes) else (n, bytes)) (AList.delete new dir)"

text \<open>\<open>cleanup(file)\<close>: unlink the file when it exists.\<close>

definition cleanup :: "jstring \<Rightarrow> (jstring \<times> jstring) list \<Rightarrow> (jstring \<times> jstring) list" where
  "cleanup file dir = (if file \<noteq> [] \<and> existsSync dir file then AList.delete file dir else dir)"

definition write_files :: "(jstring \<times> jstring) list \<Rightarrow> (jstring \<times> jstring) list \<Rightarrow> (jstring \<times> jstring) list" where
  "write_files files dir = fold (\<lambda>(n, bytes). AList.update n bytes) files dir"

text \<open>The check after the subprocess: the expected file exists, or the first file of the
  directory whose name starts with \<open>audio_<timestamp>\<close> is renamed to it; \<open>None\<close> is the
  exception \<open>MP3 file was not created\<close>.\<close>

definition locate_output :: "nat \<Rightarrow> (jstring \<times> jstring) list \<Rightarrow> (jstring \<times> jstring) list option" where
  "locate_output timestamp dir =
     (if \<not> existsSync dir (expectedMp3 timestamp) then
        (case filter (\<lambda>f. startsWith f (audio_prefix timestamp)) (readdirSync dir) of
           [] \<Rightarrow> None
         | actualFile # _ \<Rightarrow>
             Some (if actualFile \<noteq> expectedMp3 timestamp
                   then renameSync actualFile (expectedMp3 timestamp) dir else dir))
      else Some dir)"


subsection \<open>\<open>POST /api/download\<close>\<close>

text \<open>
  The request body, and everything outside the handler that one call depends on: the
  answer of the metadata query, the handlers that run while the call waits for it, the
  spawned process (its identity, the files it writes into the temp directory, how it
  ends), the handlers that run while it runs, and what becomes of the read stream of the
  file: it emits \<open>end\<close>, it emits \<open>error\<close>, or the response is closed before either, in
  which case \<open>pipe\<close> stops reading and the stream emits neither.
  \<open>Date.now()\<close> is the clock of the server state.
\<close>

record download_request =
  url :: "jstring option"
  sessionId :: "jstring option"

datatype process_end = Close "int option" jstring | ProcessError jstring

datatype stream_end = StreamEnd | StreamError | ResponseClosed

record download_env =
  title_stdout :: "jstring option"
  during_title :: "event list"
  pid :: nat
  tool_files :: "(jstring \<times> jstring) list"
  during_download :: "event list"
  process_end :: process_end
  stream_end :: stream_end

text \<open>A response is either \<open>res.status(code).json({error, details})\<close> or the audio
  stream with its \<open>X-Filename\<close> and \<open>Content-Length\<close> headers and the bytes that were
  sent (\<open>None\<close> when the stream did not reach its end).\<close>

datatype response =
    Json nat jstring "jstring option"
  | Audio jstring nat "jstring option"

fun status_code :: "response \<Rightarrow> nat" where
  "status_code (Json code err det) = code"
| "status_code (Audio name len bytes) = 200"

definition cancelled_response :: response where
  "cancelled_response = Json 499 (js ''Download cancelled by user'') None"

definition show_int :: "int \<Rightarrow> jstring" where
  "show_int c = (if c < 0 then (js ''-'') @ decimal (nat (- c)) else decimal (nat c))"

definition exit_message :: "int option \<Rightarrow> jstring \<Rightarrow> jstring" where
  "exit_message code stderr =
     (js ''yt-dlp exited with code '') @ (case code of None \<Rightarrow> (js ''null'') | Some c \<Rightarrow> show_int c)
       @ (js '': '') @ stderr"

text \<open>\<open>spawn\<close> and the recording of the process under the session identifier.\<close>

definition spawn_process :: "download_request \<Rightarrow> download_env \<Rightarrow> server \<Rightarrow> server" where
  "spawn_process req env st =
     (if truthy (sessionId req)
      then st\<lparr>activeProcesses := (activeProcesses st)(sessionId req \<mapsto> pid env)\<rparr>
      else st)"

text \<open>The server state at the moment the process ends: the tool has written its files
  and the other handlers have run.\<close>

definition while_running :: "download_request \<Rightarrow> download_env \<Rightarrow> server \<Rightarrow> server" where
  "while_running req env st =
     run_events (during_download env)
       ((spawn_process req env st)\<lparr>temp_dir := write_files (tool_files env) (temp_dir st)\<rparr>)"

text \<open>\<open>activeProcesses.delete(sessionId)\<close> of the \<open>close\<close> and \<open>error\<close> listeners.\<close>

definition process_ended :: "download_request \<Rightarrow> server \<Rightarrow> server" where
  "process_ended req st = st\<lparr>activeProcesses := (activeProcesses st)(sessionId req := None)\<rparr>"

text \<open>The \<open>catch\<close> block, entered after the spawn: kill the process, clean up, answer 500.\<close>

definition catch_block :: "nat \<Rightarrow> nat \<Rightarrow> jstring \<Rightarrow> server \<Rightarrow> response \<times> server" where
  "catch_block p timestamp message st =
     (Json 500 (js ''Failed to download/convert video'') (Some message),
      st\<lparr>signalled := insert p (signalled st),
         temp_dir := cleanup (expectedMp3 timestamp) (temp_dir st)\<rparr>)"

text \<open>
  Headers and stream. \<open>encodeURIComponent\<close> and \<open>statSync\<close> can throw, which leads to the
  \<open>catch\<close> block (the message of the second is written \<open>ENOENT\<close> here). \<open>cleanup\<close> is
  called by the \<open>end\<close> and the \<open>error\<close> listener of the read stream and nowhere else, so
  when the response is closed before the stream emits either, the file stays.
\<close>

definition send_file :: "nat \<Rightarrow> nat \<Rightarrow> jstring \<Rightarrow> download_env \<Rightarrow> server \<Rightarrow> response \<times> server" where
  "send_file p timestamp title env st =
     (let filename = title @ js ''.mp3'' in
      case encodeURIComponent filename of
        None \<Rightarrow> catch_block p timestamp (js ''URI malformed'') st
      | Some header \<Rightarrow>
          (case map_of (temp_dir st) (expectedMp3 timestamp) of
             None \<Rightarrow> catch_block p timestamp (js ''ENOENT'') st
           | Some bytes \<Rightarrow>
               (case stream_end env of
                  StreamEnd \<Rightarrow>
                    (Audio header (length bytes) (Some bytes),
                     st\<lparr>temp_dir := cleanup (expectedMp3 timestamp) (temp_dir st)\<rparr>)
                | StreamError \<Rightarrow>
                    (Audio header (length bytes) None,
                     st\<lparr>temp_dir := cleanup (expectedMp3 timestamp) (temp_dir st)\<rparr>)
                | ResponseClosed \<Rightarrow>
                    (Audio header (length bytes) None, st))))"

text \<open>From the end of the process on: exit code, existence check, the last cancellation
  check, the stream.\<close>

definition after_process ::
  "download_request \<Rightarrow> download_env \<Rightarrow> nat \<Rightarrow> jstring \<Rightarrow> server \<Rightarrow> response \<times> server" where
  "after_process req env timestamp title st0 =
     (let st = process_ended req st0 in
      case process_end env of
        ProcessError msg \<Rightarrow> catch_block (pid env) timestamp msg st
      | Close code stderr \<Rightarrow>
          if code = Some 0 then
            (case locate_output timestamp (temp_dir st) of
               None \<Rightarrow> catch_block (pid env) timestamp (js ''MP3 file was not created'') st
             | Some dir \<Rightarrow>
                 if sessionId req \<in> cancelledSessions st
                 then (cancelled_response,
                       st\<lparr>temp_dir := cleanup (expectedMp3 timestamp) dir\<rparr>)
                 else send_file (pid env) timestamp title env (st\<lparr>temp_dir := dir\<rparr>))
          else catch_block (pid env) timestamp (exit_message code stderr) st)"

definition download :: "download_request \<Rightarrow> download_env \<Rightarrow> server \<Rightarrow> response \<times> server" where
  "download req env st =
     (if \<not> truthy (url req) then (Json 400 (js ''URL is required'') None, st)
      else
        let timestamp = now st in
        if sessionId req \<in> cancelledSessions st then (cancelled_response, st)
        else
          let title = videoTitle timestamp (title_stdout env);
              st1 = run_events (during_title env) st in
          if sessionId req \<in> cancelledSessions st1 then (cancelled_response, st1)
          else after_process req env timestamp title (while_running req env st1))"


section \<open>The batch driver of the client\<close>

datatype status = PENDING | DOWNLOADING | CONVERTING | SAVED | FAILED | CANCELLED

record link_item = link_record +
  status :: status
  error :: "jstring option"

text \<open>What the client sees of a response: the status, the \<open>details\<close> and \<open>error\<close> fields
  of a JSON body, and the result of \<open>response.blob()\<close> (\<open>Inl\<close>: it rejects). A \<open>fetch\<close>
  either rejects with a message or resolves to a response.\<close>

record http_response =
  http_status :: nat
  json_details :: "jstring option"
  json_error :: "jstring option"
  blob :: "jstring + jstring"

datatype fetch_result = Rejected jstring | Resolved http_response

definition ok :: "http_response \<Rightarrow> bool" where
  "ok r = (200 \<le> http_status r \<and> http_status r \<le> 299)"

text \<open>For one link: the result of its request, whether the user presses Cancel while the
  request is in flight, and whether the user presses Cancel during the pause after it.\<close>

record link_env =
  fetched :: fetch_result
  cancel_during_fetch :: bool
  cancel_during_delay :: bool

text \<open>The component state the driver works on: the \<open>links\<close> array, \<open>cancelledRef.current\<close>,
  and the URLs posted to \<open>/api/download\<close> so far.\<close>

record client =
  links :: "link_item list"
  cancelledRef :: bool
  requests :: "jstring list"

definition set_status :: "nat \<Rightarrow> status \<Rightarrow> link_item list \<Rightarrow> link_item list" where
  "set_status index s ls = ls[index := (ls ! index)\<lparr>status := s\<rparr>]"

definition set_status_error :: "nat \<Rightarrow> status \<Rightarrow> jstring \<Rightarrow> link_item list \<Rightarrow> link_item list" where
  "set_status_error index s e ls = ls[index := (ls ! index)\<lparr>status := s, error := Some e\<rparr>]"

text \<open>\<open>errorData.details || errorData.error || 'Download failed'\<close>\<close>

definition error_message :: "http_response \<Rightarrow> jstring" where
  "error_message r =
     (if truthy (json_details r) then the (json_details r)
      else if truthy (json_error r) then the (json_error r)
      else (js ''Download failed''))"

text \<open>\<open>downloadSingle(index)\<close>, called by the loop with an index inside the array.\<close>

definition downloadSingle :: "nat \<Rightarrow> link_env \<Rightarrow> client \<Rightarrow> client" where
  "downloadSingle index env c =
     (let item = links c ! index;
          c1 = c\<lparr>links := set_status index DOWNLOADING (links c),
                 requests := requests c @ [link item],
                 cancelledRef := cancelledRef c \<or> cancel_during_fetch env\<rparr> in
      case fetched env of
        Rejected msg \<Rightarrow> c1\<lparr>links := set_status_error index FAILED msg (links c1)\<rparr>
      | Resolved response \<Rightarrow>
          if cancelledRef c1
          then c1\<lparr>links := set_status_error index CANCELLED (js ''Cancelled by user'') (links c1)\<rparr>
          else if \<not> ok response
          then c1\<lparr>links := set_status_error index FAILED (error_message response) (links c1)\<rparr>
          else (case blob response of
                  Inl msg \<Rightarrow>
                    c1\<lparr>links := set_status_error index FAILED msg
                                   (set_status index CONVERTING (links c1))\<rparr>
                | Inr bytes \<Rightarrow>
                    c1\<lparr>links := set_status index SAVED
                                   (set_status index CONVERTING (links c1))\<rparr>))"

text \<open>Marking the links from \<open>i\<close> on as cancelled.\<close>

definition cancel_from :: "nat \<Rightarrow> link_item list \<Rightarrow> link_item list" where
  "cancel_from i ls =
     map (\<lambda>(idx, l). if idx \<ge> i then l\<lparr>status := CANCELLED, error := Some (js ''Cancelled by user'')\<rparr> else l)
       (enumerate 0 ls)"

text \<open>The \<open>for\<close> loop of \<open>startProcessing\<close> from index \<open>i\<close>; \<open>n\<close> is \<open>links.length\<close> of the
  array the function closed over.\<close>

function process_from :: "nat \<Rightarrow> nat \<Rightarrow> (nat \<Rightarrow> link_env) \<Rightarrow> client \<Rightarrow> client" where
  "process_from n i envs c =
     (if i < n then
        (if cancelledRef c then c\<lparr>links := cancel_from i (links c)\<rparr>
         else
           let c1 = downloadSingle i (envs i) c;
               c2 = (if i < n - 1 \<and> \<not> cancelledRef c1
                     then c1\<lparr>cancelledRef := cancel_during_delay (envs i)\<rparr> else c1)
           in process_from n (i + 1) envs c2)
      else c)"
  by pat_completeness auto
termination
  by (relation "measure (\<lambda>(n, i, envs, c). n - i)") auto

declare process_from.simps [simp del]

definition reset_item :: "link_item \<Rightarrow> link_item" where
  "reset_item l = l\<lparr>status := PENDING, error := None\<rparr>"

text \<open>What \<open>startProcessing\<close> meets besides the links: whether its request to
  \<open>/api/clear-cancel\<close> resolves (when it rejects, the function ends with the exception
  before the loop), whether the user presses Cancel while that request is in flight, and
  the environment of each link.\<close>

record batch_env =
  clear_cancel_resolves :: bool
  cancel_during_clear :: bool
  link_envs :: "nat \<Rightarrow> link_env"

definition startProcessing :: "batch_env \<Rightarrow> client \<Rightarrow> client" where
  "startProcessing benv c =
     (if length (links c) = 0 then c
      else if \<not> clear_cancel_resolves benv
      then c\<lparr>cancelledRef := cancel_during_clear benv\<rparr>
      else process_from (length (links c)) 0 (link_envs benv)
             (c\<lparr>cancelledRef := cancel_during_clear benv,
                links := map reset_item (links c)\<rparr>))"

section \<open>Notions used in the properties\<close>

subsection \<open>The checkpoints of a download call\<close>

text \<open>
  The handler tests \<open>cancelledSessions.has(sessionId)\<close> three times. The first test sees
  the state in which the call starts, the second the state after the handlers that ran
  during the metadata query, the third the state at the end of the subprocess. The third
  test is executed only when the first two were passed, the subprocess closed with exit
  code 0 and the output file was found.
\<close>

definition cancelled_at_entry :: "download_request \<Rightarrow> server \<Rightarrow> bool" where
  "cancelled_at_entry req st = (sessionId req \<in> cancelledSessions st)"

definition cancelled_after_title :: "download_request \<Rightarrow> download_env \<Rightarrow> server \<Rightarrow> bool" where
  "cancelled_after_title req env st =
     (sessionId req \<in> cancelledSessions (run_events (during_title env) st))"

definition starts_subprocess :: "download_request \<Rightarrow> download_env \<Rightarrow> server \<Rightarrow> bool" where
  "starts_subprocess req env st =
     (truthy (url req) \<and> \<not> cancelled_at_entry req st \<and> \<not> cancelled_after_title req env st)"

definition at_process_end :: "download_request \<Rightarrow> download_env \<Rightarrow> server \<Rightarrow> server" where
  "at_process_end req env st = while_running req env (run_events (during_title env) st)"

definition exits_zero :: "download_env \<Rightarrow> bool" where
  "exits_zero env =
     (case process_end env of Close code stderr \<Rightarrow> code = Some 0 | ProcessError msg \<Rightarrow> False)"

definition cancelled_before_sending :: "download_request \<Rightarrow> download_env \<Rightarrow> server \<Rightarrow> bool" where
  "cancelled_before_sending req env st =
     (sessionId req \<in> cancelledSessions (at_process_end req env st))"

text \<open>Only truthy identifiers are ever added to \<open>cancelledSessions\<close>: the state in which
  the server starts has this property, and every handler keeps it.\<close>

definition server_inv :: "server \<Rightarrow> bool" where
  "server_inv st = (\<forall>sid \<in> cancelledSessions st. truthy sid)"

text \<open>The sequence \<open>cancel\<close>, \<open>clearCancel\<close>, \<open>cancel\<close> on one session: \<open>a\<close> milliseconds
  pass between the first two calls and \<open>b\<close> between the last two.\<close>

definition cancel_clear_cancel :: "jstring option \<Rightarrow> nat \<Rightarrow> nat \<Rightarrow> server \<Rightarrow> server" where
  "cancel_clear_cancel sid a b st =
     cancel sid (elapse b (clearCancel sid (elapse a (cancel sid st))))"

subsection \<open>The files of a call\<close>

text \<open>The temp directory as a map from names to contents.\<close>

definition files :: "server \<Rightarrow> jstring \<rightharpoonup> jstring" where
  "files st = map_of (temp_dir st)"

text \<open>The output file of a call with time stamp \<open>ts\<close> in a directory: the file at the
  expected path \<open>audio_<ts>.mp3\<close>, or, when there is none, the first file in name order
  whose name starts with \<open>audio_<ts>\<close>.\<close>

definition produced_file :: "nat \<Rightarrow> (jstring \<times> jstring) list \<Rightarrow> jstring option" where
  "produced_file ts dir =
     (if map_of dir (expectedMp3 ts) \<noteq> None then Some (expectedMp3 ts)
      else find (\<lambda>f. startsWith f (audio_prefix ts)) (sort (map fst dir)))"

text \<open>The subprocess fails or leaves no output.\<close>

definition no_output :: "download_request \<Rightarrow> download_env \<Rightarrow> server \<Rightarrow> bool" where
  "no_output req env st =
     (\<not> exits_zero env \<or>
      produced_file (now st) (temp_dir (at_process_end req env st)) = None)"

subsection \<open>Rows numbered from a given row number\<close>

text \<open>The links of the qualifying records of \<open>rs\<close> when the first record has row number
  \<open>n\<close>; \<open>expected_links\<close> is the case \<open>n = 2\<close>.\<close>

definition links_from :: "nat \<Rightarrow> csv_record list \<Rightarrow> link_record list" where
  "links_from n rs =
     map (\<lambda>(n, r). \<lparr>row = n, link = trim (the (column_value r))\<rparr>)
       (filter (\<lambda>(n, r). qualifies r) (zip [n ..< n + length rs] rs))"

subsection \<open>The file name in words\<close>

text \<open>As the specification words it: every non-alphanumeric character of the title
  replaced by an underscore, the result cut to 50 characters, and \<open>.mp3\<close> appended.\<close>

definition spec_filename :: "jstring \<Rightarrow> jstring" where
  "spec_filename title =
     take 50 (map (\<lambda>c. if is_alnum c then c else 95) title) @ js ''.mp3''"

text \<open>
  As the handler computes it, in words. The title is the answer of the metadata query
  without its leading and trailing white space; of its characters only letters, digits,
  underscores, hyphens and white space are kept; of the white space kept, every character
  that follows another white-space character is dropped and every other one becomes an
  underscore; the first 50 characters of the result are taken. Without an answer the title
  is \<open>audio_<timestamp>\<close>. The file name is the title followed by \<open>.mp3\<close>.
\<close>

fun squeeze :: "bool \<Rightarrow> jstring \<Rightarrow> jstring" where
  "squeeze after_space [] = []"
| "squeeze after_space (c # cs) =
     (if is_space c then (if after_space then squeeze True cs else 95 # squeeze True cs)
      else c # squeeze False cs)"

definition amended_title :: "jstring \<Rightarrow> jstring" where
  "amended_title out =
     take 50 (squeeze False
       (filter (\<lambda>c. is_alnum c \<or> c = 95 \<or> c = 45 \<or> is_space c) (trim out)))"

definition amended_filename :: "nat \<Rightarrow> jstring option \<Rightarrow> jstring" where
  "amended_filename ts answer =
     (case answer of None \<Rightarrow> js ''audio_'' @ decimal ts | Some out \<Rightarrow> amended_title out)
       @ js ''.mp3''"

subsection \<open>Client and server together\<close>

text \<open>What \<open>fetch\<close> hands to the client for a response of the download handler. A body
  that was cut short makes \<open>response.blob()\<close> reject.\<close>

definition client_view :: "response \<Rightarrow> http_response" where
  "client_view r =
     (case r of
        Json code err det \<Rightarrow>
          \<lparr>http_status = code, json_details = det, json_error = Some err, blob = Inr []\<rparr>
      | Audio name len bytes \<Rightarrow>
          \<lparr>http_status = 200, json_details = None, json_error = None,
           blob = (case bytes of Some b \<Rightarrow> Inr b | None \<Rightarrow> Inl (js ''network error''))\<rparr>)"

text \<open>The terminal status of a link whose request ran without the user cancelling.\<close>

definition outcome :: "link_env \<Rightarrow> status" where
  "outcome env =
     (case fetched env of
        Rejected msg \<Rightarrow> FAILED
      | Resolved response \<Rightarrow>
          if ok response then (case blob response of Inl msg \<Rightarrow> FAILED | Inr bytes \<Rightarrow> SAVED)
          else FAILED)"

text \<open>The user does not press Cancel during a batch of \<open>n\<close> links.\<close>

definition not_cancelled :: "nat \<Rightarrow> batch_env \<Rightarrow> bool" where
  "not_cancelled n benv =
     (\<not> cancel_during_clear benv \<and>
      (\<forall>i < n. \<not> cancel_during_fetch (link_envs benv i) \<and>
                \<not> cancel_during_delay (link_envs benv i)))"


section \<open>Sample inputs\<close>

text \<open>A parser result whose header has the column \<open>links\<close> written with a dotless i
  (U+0131); one value is only white space, one is padded with a no-break space and an
  ideographic space.\<close>

definition sample_csv :: csv_stream where
  "sample_csv =
     Yield [(js ''Name'', js ''a''), (js ''l'' @ [0x131] @ js ''nks'', js ''https://youtu.be/x'')]
    (Yield [(js ''Name'', js ''b''), (js ''l'' @ [0x131] @ js ''nks'', js ''cats'')]
    (Yield [(js ''Name'', js ''c''), (js ''l'' @ [0x131] @ js ''nks'', [0xA0, 32])]
    (Yield [(js ''Name'', js ''d''),
            (js ''l'' @ [0x131] @ js ''nks'',
             [0xA0] @ js ''www.youtube.com/watch?v=1'' @ [0x3000])] Done)))"

definition no_links_csv :: csv_stream where
  "no_links_csv =
     Yield [(js ''Name'', js ''a''), (js ''URL'', js ''https://youtu.be/x'')]
    (Yield [(js ''Name'', js ''b''), (js ''URL'', js ''https://youtu.be/y'')] Done)"

definition broken_csv :: csv_stream where
  "broken_csv =
     Yield [(js ''LINKS'', js ''https://youtu.be/x'')] (Throw (js ''Invalid Record Length''))"

definition session_1 :: "jstring option" where
  "session_1 = Some (js ''session_1'')"

definition sample_request :: download_request where
  "sample_request = \<lparr>url = Some (js ''https://youtu.be/abc''), sessionId = session_1\<rparr>"

definition anonymous_request :: download_request where
  "anonymous_request = \<lparr>url = Some (js ''https://youtu.be/abc''), sessionId = None\<rparr>"

definition empty_request :: download_request where
  "empty_request = \<lparr>url = None, sessionId = session_1\<rparr>"

text \<open>The tool writes the expected file and exits with 0; the title is found.\<close>

definition titled_env :: download_env where
  "titled_env =
     \<lparr>title_stdout = Some (js ''AC/DC - Live!''), during_title = [], pid = 7,
      tool_files = [(js ''audio_0.mp3'', js ''ID3'')], during_download = [],
      process_end = Close (Some 0) [], stream_end = StreamEnd\<rparr>"

text \<open>The same, with a cancel request arriving during the metadata query, during the
  subprocess, and with a cancel request that carries no identifier.\<close>

definition cancel_early_env :: download_env where
  "cancel_early_env = titled_env\<lparr>during_title := [Cancel session_1]\<rparr>"

definition cancel_late_env :: download_env where
  "cancel_late_env = titled_env\<lparr>during_download := [Cancel session_1]\<rparr>"

definition cancel_anonymous_env :: download_env where
  "cancel_anonymous_env = titled_env\<lparr>during_download := [Cancel None]\<rparr>"

text \<open>The tool leaves a partial download behind and exits with 1.\<close>

definition failing_env :: download_env where
  "failing_env =
     \<lparr>title_stdout = None, during_title = [], pid = 7,
      tool_files = [(js ''audio_0.mp3.part'', js ''xx'')], during_download = [],
      process_end = Close (Some 1) (js ''ERROR''), stream_end = StreamEnd\<rparr>"

text \<open>The cancel request arrives while the tool runs and terminates it: the process
  closes without an exit code and leaves a partial download.\<close>

definition killed_env :: download_env where
  "killed_env =
     \<lparr>title_stdout = None, during_title = [], pid = 7,
      tool_files = [(js ''audio_0.mp3.part'', js ''xx'')],
      during_download = [Cancel session_1],
      process_end = Close None [], stream_end = StreamEnd\<rparr>"

text \<open>The tool writes its output under another name, besides a second file; with and
  without a cancel request arriving while it runs.\<close>

definition renamed_env :: download_env where
  "renamed_env =
     titled_env\<lparr>tool_files := [(js ''audio_0.mp3.part'', js ''xx''),
                               (js ''audio_0.mp3.mp3'', js ''ID3'')]\<rparr>"

definition renamed_cancel_env :: download_env where
  "renamed_cancel_env = renamed_env\<lparr>during_download := [Cancel session_1]\<rparr>"

text \<open>The response is closed before the read stream has ended.\<close>

definition closed_env :: download_env where
  "closed_env = titled_env\<lparr>stream_end := ResponseClosed\<rparr>"

text \<open>A title with a no-break space and a blank in front, an ideographic space inside, runs
  of blanks, special characters, a blank and a tab at the end, and more than 50
  characters.\<close>

definition long_title :: jstring where
  "long_title =
     [0xA0, 32] @ js ''AC/DC'' @ [0x3000]
       @ js '' - Live!  at   River Plate (Official Video) [HD] 2009 Buenos Aires'' @ [32, 9]"

definition long_title_env :: download_env where
  "long_title_env = titled_env\<lparr>title_stdout := Some long_title\<rparr>"

text \<open>A batch of three links whose second request is answered by the failing tool.\<close>

definition sample_links :: "link_item list" where
  "sample_links =
     [\<lparr>row = 2, link = js ''https://youtu.be/a'', status = PENDING, error = None\<rparr>,
      \<lparr>row = 3, link = js ''https://youtu.be/b'', status = PENDING, error = None\<rparr>,
      \<lparr>row = 4, link = js ''https://youtu.be/c'', status = PENDING, error = None\<rparr>]"

definition sample_client :: client where
  "sample_client = \<lparr>links = sample_links, cancelledRef = False, requests = []\<rparr>"

definition sample_envs :: "nat \<Rightarrow> link_env" where
  "sample_envs i =
     \<lparr>fetched = Resolved (client_view (fst (download sample_request
                  (if i = 1 then failing_env else titled_env) initial_server))),
      cancel_during_fetch = False, cancel_during_delay = False\<rparr>"

definition sample_batch :: batch_env where
  "sample_batch =
     \<lparr>clear_cancel_resolves = True, cancel_during_clear = False, link_envs = sample_envs\<rparr>"

section \<open>Properties of the Link Extractor\<close>

lemma trim_Nil: "trim [] = []"
  by (simp add: trim_def)

lemma has_marker_nonempty: "has_marker s \<Longrightarrow> s \<noteq> []"
  by (auto simp: has_marker_def js_def)

lemma upper_links_nonempty: "toUpperCase key = js ''LINKS'' \<Longrightarrow> key \<noteq> []"
  by (auto simp: toUpperCase_def js_def)

text \<open>The loop body pushes exactly the link of a qualifying record. The code tests the
  value for emptiness before trimming and the marker after; a trimmed value that contains a
  marker is not empty, so this is the specification's test.\<close>

lemma process_record_spec:
  "process_record n acc r =
     acc @ (if qualifies r then [\<lparr>row = n, link = trim (the (column_value r))\<rparr>] else [])"
proof (cases "link_column r")
  case None
  then show ?thesis
    by (simp add: process_record_def Object_keys_def link_column_def qualifies_def column_value_def)
next
  case (Some key)
  then have up: "toUpperCase key = js ''LINKS''"
    by (auto simp: link_column_def find_Some_iff)
  then have ne: "key \<noteq> []" by (rule upper_links_nonempty)
  show ?thesis
  proof (cases "map_of r key")
    case None
    with Some ne show ?thesis
      by (simp add: process_record_def Object_keys_def link_column_def qualifies_def
          column_value_def lookup_def truthy_def)
  next
    case (Some v)
    have "v \<noteq> [] \<and> has_marker (trim v) \<longleftrightarrow> trim v \<noteq> [] \<and> has_marker (trim v)"
      using has_marker_nonempty [of "trim v"] trim_Nil by auto
    with Some \<open>link_column r = Some key\<close> ne show ?thesis
      by (auto simp: process_record_def Object_keys_def link_column_def qualifies_def
          column_value_def lookup_def truthy_def has_marker_def Let_def)
  qed
qed

lemma links_from_Cons:
  "links_from n (r # rs) =
     (if qualifies r then [\<lparr>row = n, link = trim (the (column_value r))\<rparr>] else [])
       @ links_from (Suc n) rs"
  by (simp add: links_from_def upt_conv_Cons del: upt_Suc)

lemma links_from_none: "\<forall>r \<in> set rs. \<not> qualifies r \<Longrightarrow> links_from n rs = []"
  by (induction rs arbitrary: n) (simp_all add: links_from_Cons, simp add: links_from_def)

text \<open>The loop, for any starting row number and any links collected before.\<close>

lemma parse_loop_spec:
  "parse_loop n acc s =
     (case failure s of Some msg \<Rightarrow> Inl msg | None \<Rightarrow> Inr (acc @ links_from n (records s)))"
proof (induction s arbitrary: n acc)
  case Done
  show ?case by (simp add: links_from_def)
next
  case (Throw msg)
  show ?case by simp
next
  case (Yield r rest)
  show ?case
    by (simp add: Yield.IH process_record_spec links_from_Cons split: option.splits)
qed

lemma expected_links_from: "expected_links rs = links_from 2 rs"
  by (simp add: expected_links_def links_from_def numbered_def)

lemma no_column_not_qualifies: "link_column r = None \<Longrightarrow> \<not> qualifies r"
  by (simp add: qualifies_def column_value_def)

text \<open>
  Claim C1. When the parser reaches the end of the input and every record has a key whose
  upper-case form is \<open>LINKS\<close> (the header row has such a column), the handler answers with
  success and with exactly the qualifying records: those whose value in the first such
  column is non-empty after trimming and contains \<open>youtube.com\<close> or \<open>youtu.be\<close>. They
  come in input order, each with the trimmed value as link and with its row number, which
  starts at 2 and counts every record the parser yields, the skipped ones included.
\<close>

theorem link_extractor_returns_qualifying_rows:
  assumes "failure (parse content) = None"
    and "\<forall>r \<in> set (records (parse content)). link_column r \<noteq> None"
  shows "parse_csv parse (Some content) =
           ParseSuccess (expected_links (records (parse content)))
             (length (expected_links (records (parse content))))"
  using assms(1) by (simp add: parse_csv_def parse_loop_spec expected_links_from)

theorem link_extractor_returns_qualifying_rows_witness:
  "failure ((\<lambda>_. sample_csv) (js ''x'')) = None \<and>
   list_all (\<lambda>r. link_column r \<noteq> None) (records ((\<lambda>_. sample_csv) (js ''x''))) \<and>
   parse_csv (\<lambda>_. sample_csv) (Some (js ''x'')) =
     ParseSuccess [\<lparr>row = 2, link = js ''https://youtu.be/x''\<rparr>,
                   \<lparr>row = 5, link = js ''www.youtube.com/watch?v=1''\<rparr>] 2"
proof -
  have a: "failure ((\<lambda>_. sample_csv) (js ''x'')) = None" by code_simp
  have b: "\<forall>r \<in> set (records ((\<lambda>_. sample_csv) (js ''x''))). link_column r \<noteq> None" by code_simp
  have c: "expected_links (records sample_csv) =
             [\<lparr>row = 2, link = js ''https://youtu.be/x''\<rparr>,
              \<lparr>row = 5, link = js ''www.youtube.com/watch?v=1''\<rparr>]" by code_simp
  from link_extractor_returns_qualifying_rows
         [where parse = "\<lambda>_. sample_csv" and content = "(js ''x'')", OF a b] a b c
  show ?thesis by (simp add: list_all_iff)
qed

text \<open>
  Claim C5. When the parser reaches the end of the input and no key of any record has the
  upper-case form \<open>LINKS\<close>, the handler answers with success (status 200), an empty list
  of links and \<open>totalLinks = 0\<close>.
\<close>

theorem no_links_column_gives_empty_success:
  assumes "failure (parse content) = None"
    and "\<forall>r \<in> set (records (parse content)).
           \<forall>key \<in> set (Object_keys r). toUpperCase key \<noteq> js ''LINKS''"
  shows "parse_csv parse (Some content) = ParseSuccess [] 0 \<and>
         csv_status (parse_csv parse (Some content)) = 200"
proof -
  have "\<forall>r \<in> set (records (parse content)). \<not> qualifies r"
  proof
    fix r assume "r \<in> set (records (parse content))"
    with assms(2) have "link_column r = None"
      by (simp add: link_column_def Object_keys_def find_None_iff)
    then show "\<not> qualifies r" by (rule no_column_not_qualifies)
  qed
  then have "links_from 2 (records (parse content)) = []" by (rule links_from_none)
  with assms(1) show ?thesis by (simp add: parse_csv_def parse_loop_spec csv_status_def)
qed

theorem no_links_column_gives_empty_success_witness:
  "failure ((\<lambda>_. no_links_csv) (js ''x'')) = None \<and>
   list_all (\<lambda>r. list_all (\<lambda>key. toUpperCase key \<noteq> js ''LINKS'') (Object_keys r))
     (records ((\<lambda>_. no_links_csv) (js ''x''))) \<and>
   parse_csv (\<lambda>_. no_links_csv) (Some (js ''x'')) = ParseSuccess [] 0 \<and>
   csv_status (parse_csv (\<lambda>_. no_links_csv) (Some (js ''x''))) = 200"
proof -
  have a: "failure ((\<lambda>_. no_links_csv) (js ''x'')) = None" by code_simp
  have b: "\<forall>r \<in> set (records ((\<lambda>_. no_links_csv) (js ''x''))).
             \<forall>key \<in> set (Object_keys r). toUpperCase key \<noteq> js ''LINKS''" by code_simp
  from no_links_column_gives_empty_success
         [where parse = "\<lambda>_. no_links_csv" and content = "(js ''x'')", OF a b] a b
  show ?thesis by (simp add: list_all_iff csv_status_def)
qed

text \<open>
  Claim C6. When the parser throws, whatever it yielded before, the handler answers with
  status 500, the error \<open>Failed to parse CSV file\<close> and the message of the exception as
  details. The answer is not a success answer, so it carries no list of links.
\<close>

theorem parse_error_without_links:
  assumes "failure (parse content) = Some msg"
  shows "parse_csv parse (Some content) = ParseError (js ''Failed to parse CSV file'') msg \<and>
         csv_status (parse_csv parse (Some content)) = 500 \<and>
         (\<forall>ls k. parse_csv parse (Some content) \<noteq> ParseSuccess ls k)"
  using assms by (simp add: parse_csv_def parse_loop_spec csv_status_def)

theorem parse_error_without_links_witness:
  "failure ((\<lambda>_. broken_csv) (js ''x'')) = Some (js ''Invalid Record Length'') \<and>
   records broken_csv = [[(js ''LINKS'', js ''https://youtu.be/x'')]] \<and>
   parse_csv (\<lambda>_. broken_csv) (Some (js ''x'')) =
     ParseError (js ''Failed to parse CSV file'') (js ''Invalid Record Length'')"
proof -
  have a: "failure ((\<lambda>_. broken_csv) (js ''x'')) = Some (js ''Invalid Record Length'')"
    by (simp add: broken_csv_def)
  have b: "records broken_csv = [[(js ''LINKS'', js ''https://youtu.be/x'')]]"
    by (simp add: broken_csv_def)
  from parse_error_without_links
         [where parse = "\<lambda>_. broken_csv" and content = "(js ''x'')", OF a] a b
  show ?thesis by simp
qed

section \<open>Properties of the session registry\<close>

text \<open>The handlers that run during an \<open>await\<close> touch neither the temp directory nor the
  map of active processes.\<close>

lemma handle_temp_dir [simp]: "temp_dir (handle e st) = temp_dir st"
  by (cases e) (simp_all add: cancel_def clearCancel_def elapse_def Let_def)

lemma run_events_temp_dir [simp]: "temp_dir (run_events evs st) = temp_dir st"
  unfolding run_events_def by (induction evs arbitrary: st) simp_all

lemma handle_activeProcesses [simp]: "activeProcesses (handle e st) = activeProcesses st"
  by (cases e) (simp_all add: cancel_def clearCancel_def elapse_def Let_def)

lemma run_events_activeProcesses [simp]:
  "activeProcesses (run_events evs st) = activeProcesses st"
  unfolding run_events_def by (induction evs arbitrary: st) simp_all

text \<open>A session is marked only by a cancel request that names it, and only when the
  identifier is truthy.\<close>

lemma handle_cancelled:
  "sid \<in> cancelledSessions (handle e st) \<Longrightarrow>
     sid \<in> cancelledSessions st \<or> (e = Cancel sid \<and> truthy sid)"
  by (cases e) (auto simp: cancel_def clearCancel_def elapse_def Let_def split: if_splits)

lemma run_events_cancelled:
  "sid \<in> cancelledSessions (run_events evs st) \<Longrightarrow>
     sid \<in> cancelledSessions st \<or> (Cancel sid \<in> set evs \<and> truthy sid)"
  unfolding run_events_def
proof (induction evs arbitrary: st)
  case Nil
  then show ?case by simp
next
  case (Cons e evs)
  from Cons.IH [of "handle e st"] Cons.prems
  have "sid \<in> cancelledSessions (handle e st) \<or> (Cancel sid \<in> set evs \<and> truthy sid)"
    by simp
  then show ?case using handle_cancelled [of sid e st] by auto
qed

text \<open>Only a recorded process is ever signalled by these handlers.\<close>

lemma handle_signalled:
  "signalled (handle e st) \<subseteq> signalled st \<union> ran (activeProcesses st)"
  by (cases e)
     (auto simp: cancel_def clearCancel_def elapse_def Let_def ran_def split: option.splits)

lemma run_events_signalled:
  "signalled (run_events evs st) \<subseteq> signalled st \<union> ran (activeProcesses st)"
  unfolding run_events_def
proof (induction evs arbitrary: st)
  case Nil
  show ?case by simp
next
  case (Cons e evs)
  have "signalled (fold handle evs (handle e st))
          \<subseteq> signalled (handle e st) \<union> ran (activeProcesses (handle e st))"
    by (rule Cons.IH)
  with handle_signalled [of e st] show ?case by auto
qed

lemma server_inv_initial: "server_inv initial_server"
  by (simp add: server_inv_def initial_server_def)

lemma server_inv_handle: "server_inv st \<Longrightarrow> server_inv (handle e st)"
  unfolding server_inv_def using handle_cancelled by blast

lemma server_inv_run_events: "server_inv st \<Longrightarrow> server_inv (run_events evs st)"
  unfolding server_inv_def using run_events_cancelled by blast

lemma falsy_never_cancelled:
  "server_inv st \<Longrightarrow> \<not> truthy sid \<Longrightarrow> sid \<notin> cancelledSessions st"
  by (auto simp: server_inv_def)

section \<open>Properties of the file name\<close>

lemma set_replace_spaces:
  "c \<in> set (replace_spaces s) \<Longrightarrow> c = 95 \<or> (c \<in> set s \<and> \<not> is_space c)"
proof (induction s rule: replace_spaces.induct)
  case 1
  then show ?case by simp
next
  case (2 x xs)
  then show ?case by (auto split: if_splits dest: set_dropWhileD)
qed

lemma squeeze_after_space: "squeeze True s = squeeze False (dropWhile is_space s)"
  by (induction s) simp_all

lemma replace_spaces_squeeze: "replace_spaces s = squeeze False s"
proof (induction s rule: replace_spaces.induct)
  case 1
  show ?case by simp
next
  case (2 c cs)
  then show ?case by (simp add: squeeze_after_space)
qed

lemma clean_title_amended: "clean_title out = amended_title out"
proof -
  have "remove_special s = filter (\<lambda>c. is_alnum c \<or> c = 95 \<or> c = 45 \<or> is_space c) s" for s
    unfolding remove_special_def by (rule filter_cong) (auto simp: is_word_def)
  then show ?thesis
    by (simp add: clean_title_def amended_title_def substring0_def replace_spaces_squeeze)
qed

lemma videoTitle_amended: "videoTitle ts t @ js ''.mp3'' = amended_filename ts t"
  by (simp add: videoTitle_def amended_filename_def audio_prefix_def clean_title_amended
      split: option.splits)

lemma clean_title_chars:
  assumes "c \<in> set (clean_title out)"
  shows "is_word c \<or> c = 45"
proof -
  from assms have "c \<in> set (replace_spaces (remove_special (trim out)))"
    by (auto simp: clean_title_def substring0_def dest: in_set_takeD)
  then have "c = 95 \<or> (c \<in> set (remove_special (trim out)) \<and> \<not> is_space c)"
    by (rule set_replace_spaces)
  then show ?thesis by (auto simp: remove_special_def is_word_def)
qed

lemma clean_title_length: "length (clean_title out) \<le> 50"
  by (simp add: clean_title_def substring0_def)

lemma word_unreserved: "is_word c \<or> c = 45 \<Longrightarrow> uri_unreserved c"
  by (auto simp: uri_unreserved_def is_word_def js_def)

lemma digit_unreserved: "is_digit c \<Longrightarrow> uri_unreserved c"
  by (simp add: uri_unreserved_def is_alnum_def)

lemma fixed_chars: "\<forall>c \<in> set (js ''audio_.mp3''). uri_unreserved c"
  by code_simp

lemma encode_unreserved: "\<forall>c \<in> set s. uri_unreserved c \<Longrightarrow> encodeURIComponent s = Some s"
  by (induction s) simp_all

lemma digit_char_digit: "d < 10 \<Longrightarrow> is_digit (digit_char d)"
  by (simp add: is_digit_def digit_char_def)

lemma decimal_digits: "c \<in> set (decimal n) \<Longrightarrow> is_digit c"
proof (induction n rule: decimal.induct)
  case (1 n)
  show ?case
  proof (cases "n < 10")
    case True
    with 1(2) show ?thesis by (subst (asm) decimal.simps) (auto simp: digit_char_digit)
  next
    case False
    from 1(2) have "c \<in> set (decimal (n div 10)) \<or> c = digit_char (n mod 10)"
      using False by (subst (asm) decimal.simps) auto
    with 1(1) False show ?thesis by (auto simp: digit_char_digit)
  qed
qed

lemma videoTitle_unreserved:
  assumes "c \<in> set (videoTitle ts t)"
  shows "uri_unreserved c"
proof (cases t)
  case None
  with assms have "c \<in> set (js ''audio_'') \<or> c \<in> set (decimal ts)"
    by (simp add: videoTitle_def audio_prefix_def)
  then show ?thesis
  proof
    assume "c \<in> set (js ''audio_'')"
    then have "c \<in> set (js ''audio_.mp3'')" by (auto simp: js_def)
    with fixed_chars show ?thesis by blast
  next
    assume "c \<in> set (decimal ts)"
    then have "is_digit c" by (rule decimal_digits)
    then show ?thesis by (rule digit_unreserved)
  qed
next
  case (Some out)
  with assms have "c \<in> set (clean_title out)" by (simp add: videoTitle_def)
  then have "is_word c \<or> c = 45" by (rule clean_title_chars)
  then show ?thesis by (rule word_unreserved)
qed

text \<open>\<open>encodeURIComponent\<close> leaves the file name as it is.\<close>

lemma filename_header:
  "encodeURIComponent (videoTitle ts t @ js ''.mp3'') = Some (videoTitle ts t @ js ''.mp3'')"
proof (rule encode_unreserved, rule ballI)
  fix c assume "c \<in> set (videoTitle ts t @ js ''.mp3'')"
  then consider "c \<in> set (videoTitle ts t)" | "c \<in> set (js ''.mp3'')" by auto
  then show "uri_unreserved c"
  proof cases
    case 1
    then show ?thesis by (rule videoTitle_unreserved)
  next
    case 2
    then have "c \<in> set (js ''audio_.mp3'')" by (auto simp: js_def)
    with fixed_chars show ?thesis by blast
  qed
qed


section \<open>Properties of the temp directory\<close>

lemma expectedMp3_nonempty [simp]: "expectedMp3 ts \<noteq> []"
  by (simp add: expectedMp3_def audio_prefix_def js_def)

lemma map_of_cleanup: "file \<noteq> [] \<Longrightarrow> map_of (cleanup file dir) = (map_of dir)(file := None)"
  by (auto simp: cleanup_def existsSync_def delete_conv')

lemma map_of_rename_keys:
  assumes "new \<notin> fst ` set al" and "old \<noteq> new"
  shows "map_of (map (\<lambda>(n, bytes). if n = old then (new, bytes) else (n, bytes)) al)
           = ((map_of al)(old := None))(new := map_of al old)"
  using assms(1)
proof (induction al)
  case Nil
  show ?case by simp
next
  case (Cons a al)
  obtain n b where a: "a = (n, b)" by (cases a)
  from Cons.prems a have n: "n \<noteq> new" and rest: "new \<notin> fst ` set al" by auto
  show ?case using Cons.IH [OF rest] n assms(2) by (auto simp: a fun_eq_iff)
qed

lemma map_of_renameSync:
  assumes "old \<noteq> new"
  shows "map_of (renameSync old new dir) = ((map_of dir)(old := None))(new := map_of dir old)"
proof -
  have "new \<notin> fst ` set (AList.delete new dir)" by (simp add: delete_notin_dom)
  from map_of_rename_keys [OF this assms]
  show ?thesis using assms by (auto simp: renameSync_def delete_conv' fun_eq_iff)
qed

lemma find_filter_conv:
  "find P xs = (case filter P xs of [] \<Rightarrow> None | x # _ \<Rightarrow> Some x)"
  by (induction xs) simp_all

lemma find_Some_in: "find P xs = Some x \<Longrightarrow> x \<in> set xs"
  by (induction xs) (auto split: if_splits)

text \<open>The existence check finds the output file of the call and leaves it at the
  expected path.\<close>

lemma produced_file_exists:
  assumes "produced_file ts dir = Some f"
  shows "map_of dir f \<noteq> None"
proof (cases "map_of dir (expectedMp3 ts) \<noteq> None")
  case True
  with assms show ?thesis by (auto simp: produced_file_def)
next
  case False
  with assms have "find (\<lambda>f. startsWith f (audio_prefix ts)) (sort (map fst dir)) = Some f"
    by (simp add: produced_file_def)
  then have "f \<in> set (sort (map fst dir))" by (rule find_Some_in)
  then show ?thesis by (auto simp: map_of_eq_None_iff)
qed

lemma produced_file_other:
  assumes "produced_file ts dir = Some f" and "f \<noteq> expectedMp3 ts"
  shows "map_of dir (expectedMp3 ts) = None"
  using assms by (auto simp: produced_file_def split: if_splits)

lemma locate_output_produced:
  "locate_output ts dir =
     (case produced_file ts dir of
        None \<Rightarrow> None
      | Some f \<Rightarrow> Some (if f = expectedMp3 ts then dir else renameSync f (expectedMp3 ts) dir))"
proof (cases "map_of dir (expectedMp3 ts) \<noteq> None")
  case True
  then show ?thesis by (simp add: locate_output_def produced_file_def existsSync_def)
next
  case False
  show ?thesis
  proof (cases "produced_file ts dir")
    case None
    with False show ?thesis
      by (simp add: locate_output_def produced_file_def existsSync_def readdirSync_def
          find_filter_conv split: list.splits)
  next
    case (Some f)
    with False produced_file_exists [OF Some] have "f \<noteq> expectedMp3 ts" by auto
    with False Some show ?thesis
      by (simp add: locate_output_def produced_file_def existsSync_def readdirSync_def
          find_filter_conv split: list.splits)
  qed
qed

lemma located_files:
  assumes "produced_file ts dir = Some f"
  shows "\<exists>dir'. locate_output ts dir = Some dir' \<and>
           map_of dir' = ((map_of dir)(f := None))(expectedMp3 ts := map_of dir f)"
proof (cases "f = expectedMp3 ts")
  case True
  with assms show ?thesis by (auto simp: locate_output_produced fun_eq_iff)
next
  case False
  with assms show ?thesis by (simp add: locate_output_produced map_of_renameSync)
qed

section \<open>Properties of the download handler\<close>

lemma catch_block_fst [simp]:
  "fst (catch_block p ts msg st) = Json 500 (js ''Failed to download/convert video'') (Some msg)"
  by (simp add: catch_block_def)

lemma catch_block_files [simp]:
  "files (snd (catch_block p ts msg st)) = (files st)(expectedMp3 ts := None)"
  by (simp add: catch_block_def files_def map_of_cleanup)

lemma catch_block_cancelled [simp]:
  "cancelledSessions (snd (catch_block p ts msg st)) = cancelledSessions st"
  by (simp add: catch_block_def)

lemma send_file_cancelled [simp]:
  "cancelledSessions (snd (send_file p ts title env st)) = cancelledSessions st"
  by (simp add: send_file_def catch_block_def split: option.splits stream_end.splits)

lemma process_ended_cancelled [simp]:
  "cancelledSessions (process_ended req st) = cancelledSessions st"
  by (simp add: process_ended_def)

lemma process_ended_temp_dir [simp]: "temp_dir (process_ended req st) = temp_dir st"
  by (simp add: process_ended_def)

lemma spawn_process_cancelled [simp]:
  "cancelledSessions (spawn_process req env st) = cancelledSessions st"
  by (simp add: spawn_process_def)

lemma spawn_process_temp_dir [simp]: "temp_dir (spawn_process req env st) = temp_dir st"
  by (simp add: spawn_process_def)

lemma spawn_falsy [simp]: "\<not> truthy (sessionId req) \<Longrightarrow> spawn_process req env st = st"
  by (simp add: spawn_process_def)

lemma after_process_cancelled [simp]:
  "cancelledSessions (snd (after_process req env ts title st)) = cancelledSessions st"
  by (simp add: after_process_def Let_def split: process_end.splits option.splits)

text \<open>At the end of the process the temp directory holds what it held when the call
  started and what the tool wrote.\<close>

lemma temp_dir_at_process_end:
  "temp_dir (at_process_end req env st) = write_files (tool_files env) (temp_dir st)"
  by (simp add: at_process_end_def while_running_def)

text \<open>A call that does not start the subprocess leaves the directory as it found it; a
  call that starts it continues with the code after the subprocess.\<close>

lemma download_early:
  "\<not> starts_subprocess req env st \<Longrightarrow> temp_dir (snd (download req env st)) = temp_dir st"
  by (auto simp: download_def starts_subprocess_def cancelled_at_entry_def
      cancelled_after_title_def Let_def)

lemma download_early_response:
  "\<not> starts_subprocess req env st \<Longrightarrow>
   fst (download req env st) =
     (if truthy (url req) then cancelled_response else Json 400 (js ''URL is required'') None)"
  by (auto simp: download_def starts_subprocess_def cancelled_at_entry_def
      cancelled_after_title_def Let_def)

lemma download_started:
  "starts_subprocess req env st \<Longrightarrow>
   download req env st =
     after_process req env (now st) (videoTitle (now st) (title_stdout env))
       (at_process_end req env st)"
  by (simp add: download_def starts_subprocess_def cancelled_at_entry_def
      cancelled_after_title_def Let_def at_process_end_def)

text \<open>The three ways the code after the subprocess can go. \<open>st\<close> is the state at the end
  of the process, \<open>f\<close> the output file.\<close>

lemma after_process_failed:
  assumes "\<not> exits_zero env \<or> produced_file ts (temp_dir st) = None"
  shows "\<exists>msg. fst (after_process req env ts title st)
                  = Json 500 (js ''Failed to download/convert video'') (Some msg)"
    and "files (snd (after_process req env ts title st)) = (files st)(expectedMp3 ts := None)"
  using assms
  by (auto simp: after_process_def Let_def exits_zero_def locate_output_produced files_def
      process_ended_def catch_block_def map_of_cleanup split: process_end.splits option.splits)

lemma after_process_cancelled_late:
  assumes "exits_zero env" and "produced_file ts (temp_dir st) = Some f"
    and "sessionId req \<in> cancelledSessions st"
  shows "fst (after_process req env ts title st) = cancelled_response"
    and "files (snd (after_process req env ts title st)) = (files st)(f := None)"
proof -
  from located_files [OF assms(2)] obtain dir' where
    l: "locate_output ts (temp_dir st) = Some dir'" and
    m: "map_of dir' = ((map_of (temp_dir st))(f := None))(expectedMp3 ts := map_of (temp_dir st) f)"
    by blast
  from assms(1) obtain stderr where c: "process_end env = Close (Some 0) stderr"
    by (auto simp: exits_zero_def split: process_end.splits)
  show "fst (after_process req env ts title st) = cancelled_response"
    using assms(3) l c by (simp add: after_process_def Let_def)
  have "files (snd (after_process req env ts title st))
          = (map_of dir')(expectedMp3 ts := None)"
    using assms(3) l c by (simp add: after_process_def Let_def files_def map_of_cleanup)
  also have "\<dots> = (files st)(f := None)"
    using produced_file_other [OF assms(2)] by (auto simp: m files_def fun_eq_iff)
  finally show "files (snd (after_process req env ts title st)) = (files st)(f := None)" .
qed

lemma after_process_sent:
  assumes "exits_zero env" and "produced_file ts (temp_dir st) = Some f"
    and "sessionId req \<notin> cancelledSessions st"
    and "encodeURIComponent (title @ js ''.mp3'') = Some header"
  shows "\<exists>bytes. files st f = Some bytes \<and>
           fst (after_process req env ts title st)
             = Audio header (length bytes)
                 (case stream_end env of StreamEnd \<Rightarrow> Some bytes | _ \<Rightarrow> None) \<and>
           files (snd (after_process req env ts title st))
             = (case stream_end env of
                  ResponseClosed \<Rightarrow> (files st)(f := None, expectedMp3 ts \<mapsto> bytes)
                | _ \<Rightarrow> (files st)(f := None))"
proof -
  from located_files [OF assms(2)] obtain dir' where
    l: "locate_output ts (temp_dir st) = Some dir'" and
    m: "map_of dir' = ((map_of (temp_dir st))(f := None))(expectedMp3 ts := map_of (temp_dir st) f)"
    by blast
  from assms(1) obtain stderr where c: "process_end env = Close (Some 0) stderr"
    by (auto simp: exits_zero_def split: process_end.splits)
  from produced_file_exists [OF assms(2)] obtain bytes where
    b: "map_of (temp_dir st) f = Some bytes" by auto
  have e: "map_of dir' (expectedMp3 ts) = Some bytes" by (simp add: m b)
  have r: "(map_of dir')(expectedMp3 ts := None) = (files st)(f := None)"
    using produced_file_other [OF assms(2)] by (auto simp: m files_def fun_eq_iff)
  have k: "map_of dir' = (files st)(f := None, expectedMp3 ts \<mapsto> bytes)"
    by (simp add: m b files_def)
  have a: "after_process req env ts title st
             = send_file (pid env) ts title env ((process_ended req st)\<lparr>temp_dir := dir'\<rparr>)"
    using assms(3) l c by (simp add: after_process_def Let_def)
  show ?thesis
    unfolding a using assms(4) e r k b
    by (cases "stream_end env")
       (auto simp: send_file_def Let_def files_def map_of_cleanup)
qed

lemma at_process_end_cancelled:
  assumes "sid \<in> cancelledSessions (at_process_end req env st)"
  shows "sid \<in> cancelledSessions st \<or>
         (truthy sid \<and>
          (Cancel sid \<in> set (during_title env) \<or> Cancel sid \<in> set (during_download env)))"
proof -
  let ?st1 = "run_events (during_title env) st"
  let ?st2 = "(spawn_process req env ?st1)
                \<lparr>temp_dir := write_files (tool_files env) (temp_dir ?st1)\<rparr>"
  from assms have "sid \<in> cancelledSessions (run_events (during_download env) ?st2)"
    by (simp add: at_process_end_def while_running_def)
  then have "sid \<in> cancelledSessions ?st2 \<or> (Cancel sid \<in> set (during_download env) \<and> truthy sid)"
    by (rule run_events_cancelled)
  moreover have "cancelledSessions ?st2 = cancelledSessions ?st1" by simp
  ultimately show ?thesis using run_events_cancelled [of sid "during_title env" st] by auto
qed

text \<open>The handler keeps the invariant of the registry.\<close>

lemma server_inv_download:
  assumes "server_inv st"
  shows "server_inv (snd (download req env st))"
proof (cases "starts_subprocess req env st")
  case True
  have "server_inv (at_process_end req env st)"
    unfolding server_inv_def
    using at_process_end_cancelled [of _ req env st] assms
    by (auto simp: server_inv_def)
  then show ?thesis by (simp add: download_started [OF True] server_inv_def)
next
  case False
  have "cancelledSessions (snd (download req env st)) = cancelledSessions st \<or>
        cancelledSessions (snd (download req env st))
          = cancelledSessions (run_events (during_title env) st)"
    using False
    by (auto simp: download_def starts_subprocess_def cancelled_at_entry_def
        cancelled_after_title_def Let_def)
  with assms server_inv_run_events [OF assms, of "during_title env"]
  show ?thesis by (auto simp: server_inv_def)
qed

text \<open>A call with a URL on a session that is not marked and that no cancel request names
  while the call runs starts the subprocess and is not marked at its end.\<close>

lemma download_passes:
  assumes "truthy (url req)" and "sessionId req \<notin> cancelledSessions st"
    and "Cancel (sessionId req) \<notin> set (during_title env) \<or> \<not> truthy (sessionId req)"
    and "Cancel (sessionId req) \<notin> set (during_download env) \<or> \<not> truthy (sessionId req)"
  shows "starts_subprocess req env st" and "\<not> cancelled_before_sending req env st"
proof -
  have c2: "\<not> cancelled_after_title req env st"
    using run_events_cancelled [of "sessionId req" "during_title env" st] assms
    by (auto simp: cancelled_after_title_def)
  from assms(1,2) c2 show "starts_subprocess req env st"
    by (simp add: starts_subprocess_def cancelled_at_entry_def)
  show "\<not> cancelled_before_sending req env st"
    using at_process_end_cancelled [of "sessionId req" req env st] assms
    by (auto simp: cancelled_before_sending_def)
qed

text \<open>The answer of a call that starts the subprocess is the cancelled response only when
  the session is marked at the end of the subprocess.\<close>

lemma started_not_cancelled:
  assumes "starts_subprocess req env st" and "\<not> cancelled_before_sending req env st"
  shows "status_code (fst (download req env st)) \<noteq> 499"
  using assms(2)
  by (simp add: download_started [OF assms(1)] after_process_def Let_def send_file_def
      catch_block_def cancelled_before_sending_def
      split: process_end.splits option.splits stream_end.splits)

lemma download_not_cancelled:
  assumes "sessionId req \<notin> cancelledSessions st"
    and "Cancel (sessionId req) \<notin> set (during_title env) \<or> \<not> truthy (sessionId req)"
    and "Cancel (sessionId req) \<notin> set (during_download env) \<or> \<not> truthy (sessionId req)"
  shows "status_code (fst (download req env st)) \<noteq> 499"
proof (cases "truthy (url req)")
  case False
  then show ?thesis by (simp add: download_def)
next
  case True
  from download_passes [OF True assms] show ?thesis by (rule started_not_cancelled)
qed

text \<open>A subprocess that does not close with exit code 0, for instance because the cancel
  request killed it, makes the call fail with status 500 whether or not the session is
  marked by then: the third cancellation check is not reached.\<close>

lemma tool_failure_response:
  assumes "starts_subprocess req env st"
    and "process_end env = Close code stderr" and "code \<noteq> Some 0"
  shows "fst (download req env st) =
           Json 500 (js ''Failed to download/convert video'') (Some (exit_message code stderr))"
  using assms(2,3) by (simp add: download_started [OF assms(1)] after_process_def Let_def)

section \<open>Sample runs\<close>

lemmas sample_defs = sample_request_def anonymous_request_def empty_request_def
  session_1_def titled_env_def cancel_early_env_def cancel_late_env_def
  cancel_anonymous_env_def failing_env_def killed_env_def renamed_env_def
  renamed_cancel_env_def closed_env_def long_title_env_def initial_server_def

lemma sample_session: "truthy session_1"
  by (simp add: truthy_def session_1_def js_def)

lemma sample_url: "truthy (url sample_request)"
  by (simp add: truthy_def sample_request_def js_def)

lemma sample_expected: "expectedMp3 (now initial_server) = js ''audio_0.mp3''"
  by code_simp

lemma sample_cancelled_at_entry:
  "cancelled_at_entry sample_request (cancel session_1 initial_server)"
  using sample_session by (simp add: cancelled_at_entry_def cancel_def sample_request_def)

lemma sample_cancelled_after_title:
  "cancelled_after_title sample_request cancel_early_env initial_server"
  using sample_session
  by (simp add: cancelled_after_title_def run_events_def cancel_def sample_request_def
      cancel_early_env_def titled_env_def)

text \<open>In each of the sample environments without an early cancel request the call starts
  the subprocess.\<close>

lemma sample_starts:
  "starts_subprocess sample_request titled_env initial_server"
  "starts_subprocess sample_request cancel_late_env initial_server"
  "starts_subprocess sample_request failing_env initial_server"
  "starts_subprocess sample_request killed_env initial_server"
  "starts_subprocess sample_request renamed_env initial_server"
  "starts_subprocess sample_request renamed_cancel_env initial_server"
  "starts_subprocess sample_request closed_env initial_server"
  "starts_subprocess sample_request long_title_env initial_server"
  using sample_url
  by (simp_all add: starts_subprocess_def cancelled_at_entry_def cancelled_after_title_def
      run_events_def sample_defs)

lemma sample_exits_zero:
  "exits_zero titled_env" "exits_zero renamed_env" "exits_zero renamed_cancel_env"
  "exits_zero closed_env" "exits_zero long_title_env"
  "\<not> exits_zero failing_env" "\<not> exits_zero killed_env"
  by (simp_all add: exits_zero_def sample_defs)

lemma sample_marked_late:
  "cancelled_before_sending sample_request killed_env initial_server"
  "cancelled_before_sending sample_request renamed_cancel_env initial_server"
  using sample_session
  by (simp_all add: cancelled_before_sending_def at_process_end_def while_running_def
      run_events_def cancel_def spawn_process_def sample_defs)

lemma sample_not_marked_late:
  "\<not> cancelled_before_sending sample_request titled_env initial_server"
  "\<not> cancelled_before_sending sample_request renamed_env initial_server"
  "\<not> cancelled_before_sending sample_request closed_env initial_server"
  "\<not> cancelled_before_sending sample_request long_title_env initial_server"
  by (simp_all add: cancelled_before_sending_def at_process_end_def while_running_def
      run_events_def spawn_process_def sample_defs)

lemma sample_killed_signalled:
  "pid killed_env \<in> signalled (at_process_end sample_request killed_env initial_server)"
  using sample_session
  by (simp add: at_process_end_def while_running_def run_events_def cancel_def
      spawn_process_def sample_defs)

text \<open>The temp directory at the end of the process, and the output file found in it.\<close>

lemma sample_dirs:
  "temp_dir (at_process_end sample_request titled_env initial_server)
     = [(js ''audio_0.mp3'', js ''ID3'')]"
  "temp_dir (at_process_end sample_request closed_env initial_server)
     = [(js ''audio_0.mp3'', js ''ID3'')]"
  "temp_dir (at_process_end sample_request long_title_env initial_server)
     = [(js ''audio_0.mp3'', js ''ID3'')]"
  "temp_dir (at_process_end sample_request failing_env initial_server)
     = [(js ''audio_0.mp3.part'', js ''xx'')]"
  "temp_dir (at_process_end sample_request killed_env initial_server)
     = [(js ''audio_0.mp3.part'', js ''xx'')]"
  "temp_dir (at_process_end sample_request renamed_env initial_server)
     = [(js ''audio_0.mp3.part'', js ''xx''), (js ''audio_0.mp3.mp3'', js ''ID3'')]"
  "temp_dir (at_process_end sample_request renamed_cancel_env initial_server)
     = [(js ''audio_0.mp3.part'', js ''xx''), (js ''audio_0.mp3.mp3'', js ''ID3'')]"
  by (simp_all add: temp_dir_at_process_end sample_defs) code_simp+

lemma sample_produced:
  "produced_file 0 [(js ''audio_0.mp3'', js ''ID3'')] = Some (js ''audio_0.mp3'')"
  "produced_file 0 [(js ''audio_0.mp3.part'', js ''xx''), (js ''audio_0.mp3.mp3'', js ''ID3'')]
     = Some (js ''audio_0.mp3.mp3'')"
  "produced_file 0 [(js ''audio_0.mp3.part'', js ''xx'')] = Some (js ''audio_0.mp3.part'')"
  by code_simp+

lemma sample_now: "now initial_server = 0"
  by (simp add: initial_server_def)

lemma sample_exit_message: "exit_message None [] = js ''yt-dlp exited with code null: ''"
  by code_simp

section \<open>The file name and the content length\<close>

lemma sample_download:
  "fst (download sample_request titled_env initial_server)
     = Audio (js ''ACDC_-_Live.mp3'') 3 (Some (js ''ID3''))"
  by code_simp

text \<open>
  Claim C2, as stated: the file name is the title with every non-alphanumeric character
  replaced by an underscore, cut to 50 characters, followed by \<open>.mp3\<close>. For the title
  \<open>AC/DC - Live!\<close> that is \<open>AC_DC___Live_.mp3\<close>, but the handler sends
  \<open>ACDC_-_Live.mp3\<close>: it removes the slash and the exclamation mark, keeps the hyphen, and
  turns each run of white space into one underscore.
\<close>

theorem filename_not_underscored_counterexample:
  "title_stdout titled_env = Some (js ''AC/DC - Live!'') \<and>
   fst (download sample_request titled_env initial_server)
     = Audio (js ''ACDC_-_Live.mp3'') 3 (Some (js ''ID3'')) \<and>
   spec_filename (js ''AC/DC - Live!'') = js ''AC_DC___Live_.mp3'' \<and>
   js ''ACDC_-_Live.mp3'' \<noteq> spec_filename (js ''AC/DC - Live!'')"
proof -
  have "title_stdout titled_env = Some (js ''AC/DC - Live!'')" by (simp add: titled_env_def)
  moreover have s: "spec_filename (js ''AC/DC - Live!'') = js ''AC_DC___Live_.mp3''"
    by code_simp
  moreover have "js ''ACDC_-_Live.mp3'' \<noteq> spec_filename (js ''AC/DC - Live!'')"
    unfolding s by (simp add: js_def)
  ultimately show ?thesis using sample_download by blast
qed

text \<open>
  Claim C2, amended. The call answers with the audio stream exactly when it starts the
  subprocess, the subprocess closes with exit code 0, its output file is found and the
  session is not marked cancelled then. The file name sent in the header is then the
  resolved title followed by \<open>.mp3\<close>. With an answer of the metadata query the resolved
  title is that answer without its leading and trailing white space, with every character
  removed that is not a letter, a digit, an underscore, a hyphen or white space, with each
  run of white space replaced by one underscore, cut to 50 characters; without an answer
  it is \<open>audio_<timestamp>\<close>. The content length is the number of bytes of the output
  file, and the body of a stream that reaches its end is that file.
\<close>

theorem filename_and_content_length:
  "fst (download req env st) = Audio name len body \<longleftrightarrow>
     starts_subprocess req env st \<and> exits_zero env \<and>
     \<not> cancelled_before_sending req env st \<and>
     (\<exists>f bytes.
        produced_file (now st) (temp_dir (at_process_end req env st)) = Some f \<and>
        files (at_process_end req env st) f = Some bytes \<and>
        name = amended_filename (now st) (title_stdout env) \<and>
        len = length bytes \<and>
        body = (case stream_end env of StreamEnd \<Rightarrow> Some bytes | _ \<Rightarrow> None))"
proof (cases "starts_subprocess req env st")
  case False
  then show ?thesis by (simp add: download_early_response cancelled_response_def)
next
  case s: True
  let ?end = "at_process_end req env st"
  let ?title = "videoTitle (now st) (title_stdout env)"
  show ?thesis
  proof (cases "no_output req env st")
    case True
    then have n: "\<not> exits_zero env \<or> produced_file (now st) (temp_dir ?end) = None"
      by (simp add: no_output_def)
    from after_process_failed(1) [OF n, of req ?title]
    have "fst (download req env st) \<noteq> Audio name len body"
      unfolding download_started [OF s] by auto
    with n show ?thesis by auto
  next
    case False
    then obtain f where z: "exits_zero env" and p: "produced_file (now st) (temp_dir ?end) = Some f"
      by (auto simp: no_output_def)
    show ?thesis
    proof (cases "cancelled_before_sending req env st")
      case True
      then have "sessionId req \<in> cancelledSessions ?end"
        by (simp add: cancelled_before_sending_def)
      from after_process_cancelled_late(1) [OF z p this, of ?title] True show ?thesis
        unfolding download_started [OF s] by (simp add: cancelled_response_def)
    next
      case False
      then have "sessionId req \<notin> cancelledSessions ?end"
        by (simp add: cancelled_before_sending_def)
      from after_process_sent [OF z p this filename_header [of "now st" "title_stdout env"]]
      obtain bytes where b: "files ?end f = Some bytes"
        and r: "fst (download req env st)
                  = Audio (amended_filename (now st) (title_stdout env)) (length bytes)
                      (case stream_end env of StreamEnd \<Rightarrow> Some bytes | _ \<Rightarrow> None)"
        unfolding download_started [OF s] videoTitle_amended by blast
      from s z False p b show ?thesis unfolding r by auto
    qed
  qed
qed

lemma sample_long_title:
  "amended_filename (now initial_server) (title_stdout long_title_env)
     = js ''ACDC_-_Live_at_River_Plate_Official_Video_HD_2009_.mp3''"
  by code_simp

theorem filename_and_content_length_witness:
  "starts_subprocess sample_request long_title_env initial_server \<and>
   exits_zero long_title_env \<and>
   \<not> cancelled_before_sending sample_request long_title_env initial_server \<and>
   produced_file (now initial_server)
       (temp_dir (at_process_end sample_request long_title_env initial_server))
     = Some (js ''audio_0.mp3'') \<and>
   files (at_process_end sample_request long_title_env initial_server) (js ''audio_0.mp3'')
     = Some (js ''ID3'') \<and>
   fst (download sample_request long_title_env initial_server)
     = Audio (js ''ACDC_-_Live_at_River_Plate_Official_Video_HD_2009_.mp3'') 3
         (Some (js ''ID3'')) \<and>
   produced_file (now initial_server)
       (temp_dir (at_process_end sample_request renamed_env initial_server))
     = Some (js ''audio_0.mp3.mp3'') \<and>
   fst (download sample_request renamed_env initial_server)
     = Audio (js ''ACDC_-_Live.mp3'') 3 (Some (js ''ID3''))"
proof -
  have p: "produced_file (now initial_server)
       (temp_dir (at_process_end sample_request long_title_env initial_server))
     = Some (js ''audio_0.mp3'')"
    by (simp add: sample_dirs sample_now sample_produced)
  have b: "files (at_process_end sample_request long_title_env initial_server)
      (js ''audio_0.mp3'') = Some (js ''ID3'')"
    by (simp add: files_def sample_dirs)
  have l: "(3::nat) = length (js ''ID3'')" by (simp add: js_def)
  have e: "Some (js ''ID3'')
     = (case stream_end long_title_env of StreamEnd \<Rightarrow> Some (js ''ID3'') | _ \<Rightarrow> None)"
    by (simp add: sample_defs)
  have x: "\<exists>f bytes.
        produced_file (now initial_server)
            (temp_dir (at_process_end sample_request long_title_env initial_server))
          = Some f \<and>
        files (at_process_end sample_request long_title_env initial_server) f = Some bytes \<and>
        js ''ACDC_-_Live_at_River_Plate_Official_Video_HD_2009_.mp3''
          = amended_filename (now initial_server) (title_stdout long_title_env) \<and>
        (3::nat) = length bytes \<and>
        Some (js ''ID3'')
          = (case stream_end long_title_env of StreamEnd \<Rightarrow> Some bytes | _ \<Rightarrow> None)"
    using p b l e sample_long_title [symmetric] by (intro exI conjI)
  have 1: "fst (download sample_request long_title_env initial_server)
     = Audio (js ''ACDC_-_Live_at_River_Plate_Official_Video_HD_2009_.mp3'') 3
         (Some (js ''ID3''))"
    using filename_and_content_length
         [of sample_request long_title_env initial_server
             "js ''ACDC_-_Live_at_River_Plate_Official_Video_HD_2009_.mp3''" 3
             "Some (js ''ID3'')"]
       sample_starts(8) sample_exits_zero(5) sample_not_marked_late(4) x
    by (simp only: simp_thms)
  have p': "produced_file (now initial_server)
       (temp_dir (at_process_end sample_request renamed_env initial_server))
     = Some (js ''audio_0.mp3.mp3'')"
    by (simp add: sample_dirs sample_now sample_produced)
  have b': "files (at_process_end sample_request renamed_env initial_server)
      (js ''audio_0.mp3.mp3'') = Some (js ''ID3'')"
    by (simp add: files_def sample_dirs js_def)
  have e': "Some (js ''ID3'')
     = (case stream_end renamed_env of StreamEnd \<Rightarrow> Some (js ''ID3'') | _ \<Rightarrow> None)"
    by (simp add: sample_defs)
  have t: "js ''ACDC_-_Live.mp3''
     = amended_filename (now initial_server) (title_stdout renamed_env)"
    by code_simp
  have x': "\<exists>f bytes.
        produced_file (now initial_server)
            (temp_dir (at_process_end sample_request renamed_env initial_server))
          = Some f \<and>
        files (at_process_end sample_request renamed_env initial_server) f = Some bytes \<and>
        js ''ACDC_-_Live.mp3''
          = amended_filename (now initial_server) (title_stdout renamed_env) \<and>
        (3::nat) = length bytes \<and>
        Some (js ''ID3'')
          = (case stream_end renamed_env of StreamEnd \<Rightarrow> Some bytes | _ \<Rightarrow> None)"
    using p' b' l e' t by (intro exI conjI)
  have 2: "fst (download sample_request renamed_env initial_server)
     = Audio (js ''ACDC_-_Live.mp3'') 3 (Some (js ''ID3''))"
    using filename_and_content_length
         [of sample_request renamed_env initial_server "js ''ACDC_-_Live.mp3''" 3
             "Some (js ''ID3'')"]
       sample_starts(5) sample_exits_zero(2) sample_not_marked_late(2) x'
    by (simp only: simp_thms)
  from sample_starts(8) sample_exits_zero(5) sample_not_marked_late(4) p b 1 p' 2
  show ?thesis by blast
qed

section \<open>The claims about the download handler\<close>

text \<open>
  Claim C3, as stated: a call whose session is marked cancelled at one of the checkpoints,
  the last being after the subprocess, answers with the cancelled status, and the
  temporary file of the call does not survive. This fails when the cancel request arrives
  while the tool runs: the request marks the session and terminates the process, the
  process closes without exit code 0, and the call answers with status 500; the partial
  download that the tool wrote stays in the temp directory.
\<close>

theorem killed_subprocess_counterexample:
  "truthy (url sample_request) \<and>
   cancelled_before_sending sample_request killed_env initial_server \<and>
   pid killed_env \<in> signalled (at_process_end sample_request killed_env initial_server) \<and>
   fst (download sample_request killed_env initial_server)
     = Json 500 (js ''Failed to download/convert video'')
         (Some (js ''yt-dlp exited with code null: '')) \<and>
   status_code (fst (download sample_request killed_env initial_server)) \<noteq> 499 \<and>
   files (snd (download sample_request killed_env initial_server)) (js ''audio_0.mp3.part'')
     = Some (js ''xx'')"
proof -
  have p: "process_end killed_env = Close None []" by (simp add: killed_env_def)
  have r: "fst (download sample_request killed_env initial_server)
     = Json 500 (js ''Failed to download/convert video'')
         (Some (js ''yt-dlp exited with code null: ''))"
    using tool_failure_response [OF sample_starts(4) p] by (simp add: sample_exit_message)
  have "files (snd (download sample_request killed_env initial_server))
          = (files (at_process_end sample_request killed_env initial_server))
              (expectedMp3 (now initial_server) := None)"
    unfolding download_started [OF sample_starts(4)]
    by (rule after_process_failed(2)) (simp add: sample_exits_zero)
  then have f: "files (snd (download sample_request killed_env initial_server))
      (js ''audio_0.mp3.part'') = Some (js ''xx'')"
    by (simp add: sample_expected files_def sample_dirs js_def)
  from r have s: "status_code (fst (download sample_request killed_env initial_server)) \<noteq> 499"
    by simp
  from sample_url sample_marked_late(1) sample_killed_signalled r s f show ?thesis by blast
qed

text \<open>
  Claim C3, amended. For a call with a URL:
  \<^item> if the session is marked cancelled at the check at entry or at the check after the
    metadata query, the call answers with the cancelled response and leaves the temp
    directory as it was;
  \<^item> if the subprocess closes with exit code 0, its output file is found and the session
    is marked cancelled then, the call answers with the cancelled response and removes
    exactly that output file from the temp directory;
  \<^item> if the subprocess does not close with exit code 0 or leaves no output file, the call
    answers with status 500, marked or not, and removes nothing but
    \<open>audio_<timestamp>.mp3\<close> from the temp directory;
  \<^item> the cancelled response has status 499 and is not an audio stream, and a call whose
    session is marked cancelled at the end of the subprocess never answers with an audio
    stream.
\<close>

theorem cancelled_at_checkpoint:
  assumes "truthy (url req)"
  shows "(cancelled_at_entry req st \<or> cancelled_after_title req env st \<longrightarrow>
            fst (download req env st) = cancelled_response \<and>
            temp_dir (snd (download req env st)) = temp_dir st) \<and>
         (\<forall>f. starts_subprocess req env st \<and> exits_zero env \<and>
              produced_file (now st) (temp_dir (at_process_end req env st)) = Some f \<and>
              cancelled_before_sending req env st \<longrightarrow>
            fst (download req env st) = cancelled_response \<and>
            files (snd (download req env st)) = (files (at_process_end req env st))(f := None)) \<and>
         (starts_subprocess req env st \<and> no_output req env st \<longrightarrow>
            status_code (fst (download req env st)) = 500 \<and>
            files (snd (download req env st))
              = (files (at_process_end req env st))(expectedMp3 (now st) := None)) \<and>
         status_code cancelled_response = 499 \<and>
         (\<forall>name len bytes. cancelled_response \<noteq> Audio name len bytes) \<and>
         (starts_subprocess req env st \<and> cancelled_before_sending req env st \<longrightarrow>
            (\<forall>name len bytes. fst (download req env st) \<noteq> Audio name len bytes))"
proof (intro conjI impI allI)
  assume "cancelled_at_entry req st \<or> cancelled_after_title req env st"
  then have n: "\<not> starts_subprocess req env st" by (auto simp: starts_subprocess_def)
  from assms show "fst (download req env st) = cancelled_response"
    by (simp add: download_early_response [OF n])
  from n show "temp_dir (snd (download req env st)) = temp_dir st" by (rule download_early)
next
  fix f
  assume a: "starts_subprocess req env st \<and> exits_zero env \<and>
    produced_file (now st) (temp_dir (at_process_end req env st)) = Some f \<and>
    cancelled_before_sending req env st"
  then have s: "starts_subprocess req env st" and z: "exits_zero env"
    and p: "produced_file (now st) (temp_dir (at_process_end req env st)) = Some f"
    and m: "sessionId req \<in> cancelledSessions (at_process_end req env st)"
    by (simp_all add: cancelled_before_sending_def)
  show "fst (download req env st) = cancelled_response"
    unfolding download_started [OF s] using z p m by (rule after_process_cancelled_late(1))
  show "files (snd (download req env st)) = (files (at_process_end req env st))(f := None)"
    unfolding download_started [OF s] using z p m by (rule after_process_cancelled_late(2))
next
  assume a: "starts_subprocess req env st \<and> no_output req env st"
  then have s: "starts_subprocess req env st" by simp
  from a have n: "\<not> exits_zero env \<or>
      produced_file (now st) (temp_dir (at_process_end req env st)) = None"
    by (simp add: no_output_def)
  from after_process_failed(1) [OF n, of req "videoTitle (now st) (title_stdout env)"]
  obtain msg where "fst (download req env st)
      = Json 500 (js ''Failed to download/convert video'') (Some msg)"
    unfolding download_started [OF s] by blast
  then show "status_code (fst (download req env st)) = 500" by simp
  show "files (snd (download req env st))
          = (files (at_process_end req env st))(expectedMp3 (now st) := None)"
    unfolding download_started [OF s] using n by (rule after_process_failed(2))
next
  show "status_code cancelled_response = 499" by (simp add: cancelled_response_def)
next
  fix name len bytes
  show "cancelled_response \<noteq> Audio name len bytes" by (simp add: cancelled_response_def)
next
  fix name len bytes
  assume a: "starts_subprocess req env st \<and> cancelled_before_sending req env st"
  then have s: "starts_subprocess req env st" by simp
  from a show "fst (download req env st) \<noteq> Audio name len bytes"
    by (simp add: download_started [OF s] after_process_def Let_def cancelled_before_sending_def
        cancelled_response_def split: process_end.splits option.splits)
qed

theorem cancelled_at_checkpoint_witness:
  "truthy (url sample_request) \<and>
   cancelled_at_entry sample_request (cancel session_1 initial_server) \<and>
   fst (download sample_request titled_env (cancel session_1 initial_server))
     = cancelled_response \<and>
   cancelled_after_title sample_request cancel_early_env initial_server \<and>
   fst (download sample_request cancel_early_env initial_server) = cancelled_response \<and>
   starts_subprocess sample_request renamed_cancel_env initial_server \<and>
   exits_zero renamed_cancel_env \<and>
   produced_file (now initial_server)
       (temp_dir (at_process_end sample_request renamed_cancel_env initial_server))
     = Some (js ''audio_0.mp3.mp3'') \<and>
   cancelled_before_sending sample_request renamed_cancel_env initial_server \<and>
   fst (download sample_request renamed_cancel_env initial_server) = cancelled_response \<and>
   files (at_process_end sample_request renamed_cancel_env initial_server)
       (js ''audio_0.mp3.mp3'') = Some (js ''ID3'') \<and>
   files (snd (download sample_request renamed_cancel_env initial_server))
       (js ''audio_0.mp3.mp3'') = None \<and>
   files (snd (download sample_request renamed_cancel_env initial_server))
       (js ''audio_0.mp3'') = None \<and>
   starts_subprocess sample_request killed_env initial_server \<and>
   no_output sample_request killed_env initial_server \<and>
   status_code (fst (download sample_request killed_env initial_server)) = 500"
proof -
  note inst = cancelled_at_checkpoint [OF sample_url]
  from inst [of "cancel session_1 initial_server" titled_env] sample_cancelled_at_entry
  have 1: "fst (download sample_request titled_env (cancel session_1 initial_server))
             = cancelled_response" by blast
  from inst [of initial_server cancel_early_env] sample_cancelled_after_title
  have 2: "fst (download sample_request cancel_early_env initial_server) = cancelled_response"
    by blast
  have p: "produced_file (now initial_server)
       (temp_dir (at_process_end sample_request renamed_cancel_env initial_server))
     = Some (js ''audio_0.mp3.mp3'')"
    by (simp add: sample_dirs sample_now sample_produced)
  from inst [of initial_server renamed_cancel_env] sample_starts(6) sample_exits_zero(3) p
    sample_marked_late(2)
  have 3: "fst (download sample_request renamed_cancel_env initial_server) = cancelled_response"
    and 4: "files (snd (download sample_request renamed_cancel_env initial_server))
      = (files (at_process_end sample_request renamed_cancel_env initial_server))
          (js ''audio_0.mp3.mp3'' := None)"
    by blast+
  have 5: "files (at_process_end sample_request renamed_cancel_env initial_server)
       (js ''audio_0.mp3.mp3'') = Some (js ''ID3'')"
    by (simp add: files_def sample_dirs js_def)
  have 6: "files (snd (download sample_request renamed_cancel_env initial_server))
       (js ''audio_0.mp3.mp3'') = None"
    by (simp add: 4)
  have "files (snd (download sample_request renamed_cancel_env initial_server))
       (js ''audio_0.mp3'')
     = ((files (at_process_end sample_request renamed_cancel_env initial_server))
          (js ''audio_0.mp3.mp3'' := None)) (js ''audio_0.mp3'')"
    by (simp only: 4)
  also have "\<dots> = None" by (simp add: files_def sample_dirs js_def)
  finally have 7: "files (snd (download sample_request renamed_cancel_env initial_server))
       (js ''audio_0.mp3'') = None" .
  have n: "no_output sample_request killed_env initial_server"
    by (simp add: no_output_def sample_exits_zero)
  from inst [of initial_server killed_env] sample_starts(4) n
  have 8: "status_code (fst (download sample_request killed_env initial_server)) = 500"
    by blast
  from sample_url sample_cancelled_at_entry sample_cancelled_after_title sample_starts(4,6)
    sample_exits_zero(3) p sample_marked_late(2) 1 2 3 5 6 7 n 8
  show ?thesis by blast
qed

text \<open>
  Claim C4, as stated: no download attempt leaves a file of its own behind in the temp
  directory. This fails when the tool exits with a non-zero code after it has written a
  file under another name than the expected one, such as a partial download: the catch
  block removes \<open>audio_<timestamp>.mp3\<close> only. It also fails when the response is closed
  before the read stream has ended: no listener of the stream runs, and the output file
  itself stays.
\<close>

theorem leftover_partial_file_counterexample:
  "(js ''audio_0.mp3.part'', js ''xx'') \<in> set (tool_files failing_env) \<and>
   \<not> existsSync (temp_dir initial_server) (js ''audio_0.mp3.part'') \<and>
   status_code (fst (download sample_request failing_env initial_server)) = 500 \<and>
   existsSync (temp_dir (snd (download sample_request failing_env initial_server)))
     (js ''audio_0.mp3.part'') \<and>
   \<not> existsSync (temp_dir initial_server) (js ''audio_0.mp3'') \<and>
   existsSync (temp_dir (snd (download sample_request closed_env initial_server)))
     (js ''audio_0.mp3'')"
proof -
  have "(js ''audio_0.mp3.part'', js ''xx'') \<in> set (tool_files failing_env)"
    by (simp add: failing_env_def)
  moreover have "\<not> existsSync (temp_dir initial_server) (js ''audio_0.mp3.part'')"
    "\<not> existsSync (temp_dir initial_server) (js ''audio_0.mp3'')"
    by (simp_all add: existsSync_def initial_server_def)
  moreover have "status_code (fst (download sample_request failing_env initial_server)) = 500"
    by code_simp
  moreover have "existsSync (temp_dir (snd (download sample_request failing_env initial_server)))
     (js ''audio_0.mp3.part'')"
    by code_simp
  moreover have "existsSync (temp_dir (snd (download sample_request closed_env initial_server)))
     (js ''audio_0.mp3'')"
    by code_simp
  ultimately show ?thesis by blast
qed

text \<open>
  Claim C4, amended. The temp directory after a download attempt, as a map from names to
  contents, compared with the directory at the end of the subprocess, which holds what was
  there when the attempt started and what the tool wrote:
  \<^item> an attempt that ends before the subprocess is started (missing URL, cancelled at entry
    or after the metadata query) leaves the temp directory unchanged;
  \<^item> an attempt whose subprocess does not close with exit code 0 or leaves no output file
    removes \<open>audio_<timestamp>.mp3\<close> and nothing else;
  \<^item> an attempt whose subprocess closes with exit code 0 and whose output file is found
    (the file \<open>audio_<timestamp>.mp3\<close>, or else the first file in name order whose name
    starts with \<open>audio_<timestamp>\<close>) removes that file and nothing else, when the session
    is found cancelled before sending, when the stream ends and when the stream fails;
  \<^item> when instead the response is closed before the stream has ended or failed, the output
    file stays, under the name \<open>audio_<timestamp>.mp3\<close>, and nothing is removed.
  In every case every file of the temp directory other than the output file and
  \<open>audio_<timestamp>.mp3\<close> is left as it was at the end of the subprocess, so each other
  file that the tool wrote is still there.
\<close>

theorem files_after_download:
  "(\<not> starts_subprocess req env st \<longrightarrow> temp_dir (snd (download req env st)) = temp_dir st) \<and>
   temp_dir (at_process_end req env st) = write_files (tool_files env) (temp_dir st) \<and>
   (starts_subprocess req env st \<and> no_output req env st \<longrightarrow>
      files (snd (download req env st))
        = (files (at_process_end req env st))(expectedMp3 (now st) := None)) \<and>
   (\<forall>f. starts_subprocess req env st \<and> exits_zero env \<and>
        produced_file (now st) (temp_dir (at_process_end req env st)) = Some f \<longrightarrow>
      (cancelled_before_sending req env st \<or> stream_end env \<noteq> ResponseClosed \<longrightarrow>
         files (snd (download req env st)) = (files (at_process_end req env st))(f := None)) \<and>
      (\<not> cancelled_before_sending req env st \<and> stream_end env = ResponseClosed \<longrightarrow>
         files (snd (download req env st))
           = (files (at_process_end req env st))
               (f := None, expectedMp3 (now st) := files (at_process_end req env st) f))) \<and>
   (\<forall>g. starts_subprocess req env st \<and> g \<noteq> expectedMp3 (now st) \<and>
        produced_file (now st) (temp_dir (at_process_end req env st)) \<noteq> Some g \<longrightarrow>
      files (snd (download req env st)) g = files (at_process_end req env st) g)"
proof -
  let ?end = "at_process_end req env st"
  let ?after = "snd (download req env st)"
  have early: "temp_dir ?after = temp_dir st" if "\<not> starts_subprocess req env st"
    using that by (rule download_early)
  have failed: "files ?after = (files ?end)(expectedMp3 (now st) := None)"
    if s: "starts_subprocess req env st" and n: "no_output req env st"
  proof -
    from n have "\<not> exits_zero env \<or> produced_file (now st) (temp_dir ?end) = None"
      by (simp add: no_output_def)
    then show ?thesis unfolding download_started [OF s] by (rule after_process_failed(2))
  qed
  have removed: "files ?after = (files ?end)(f := None)"
    if s: "starts_subprocess req env st" and z: "exits_zero env"
      and p: "produced_file (now st) (temp_dir ?end) = Some f"
      and c: "cancelled_before_sending req env st \<or> stream_end env \<noteq> ResponseClosed" for f
  proof (cases "cancelled_before_sending req env st")
    case True
    then have "sessionId req \<in> cancelledSessions ?end"
      by (simp add: cancelled_before_sending_def)
    with z p show ?thesis
      unfolding download_started [OF s] by (rule after_process_cancelled_late(2))
  next
    case False
    then have "sessionId req \<notin> cancelledSessions ?end"
      by (simp add: cancelled_before_sending_def)
    from after_process_sent [OF z p this filename_header [of "now st" "title_stdout env"]]
      c False
    show ?thesis unfolding download_started [OF s] by (cases "stream_end env") auto
  qed
  have kept: "files ?after = (files ?end)(f := None, expectedMp3 (now st) := files ?end f)"
    if s: "starts_subprocess req env st" and z: "exits_zero env"
      and p: "produced_file (now st) (temp_dir ?end) = Some f"
      and c: "\<not> cancelled_before_sending req env st \<and> stream_end env = ResponseClosed" for f
  proof -
    from c have "sessionId req \<notin> cancelledSessions ?end"
      by (simp add: cancelled_before_sending_def)
    from after_process_sent [OF z p this filename_header [of "now st" "title_stdout env"]] c
    show ?thesis unfolding download_started [OF s] by auto
  qed
  have others: "files ?after g = files ?end g"
    if s: "starts_subprocess req env st" and g: "g \<noteq> expectedMp3 (now st)"
      and o: "produced_file (now st) (temp_dir ?end) \<noteq> Some g" for g
  proof (cases "no_output req env st")
    case True
    from failed [OF s True] g show ?thesis by simp
  next
    case False
    then obtain f where z: "exits_zero env" and p: "produced_file (now st) (temp_dir ?end) = Some f"
      by (auto simp: no_output_def)
    from p o have fg: "g \<noteq> f" by auto
    show ?thesis
    proof (cases "cancelled_before_sending req env st \<or> stream_end env \<noteq> ResponseClosed")
      case True
      from removed [OF s z p True] fg show ?thesis by simp
    next
      case False
      then have "\<not> cancelled_before_sending req env st \<and> stream_end env = ResponseClosed"
        by simp
      from kept [OF s z p this] fg g show ?thesis by simp
    qed
  qed
  from early temp_dir_at_process_end [of req env st] failed removed kept others
  show ?thesis by blast
qed

theorem files_after_download_witness:
  "\<not> starts_subprocess empty_request titled_env initial_server \<and>
   temp_dir (snd (download empty_request titled_env initial_server)) = temp_dir initial_server \<and>
   starts_subprocess sample_request failing_env initial_server \<and>
   no_output sample_request failing_env initial_server \<and>
   files (snd (download sample_request failing_env initial_server)) (js ''audio_0.mp3.part'')
     = Some (js ''xx'') \<and>
   starts_subprocess sample_request renamed_env initial_server \<and>
   exits_zero renamed_env \<and>
   produced_file (now initial_server)
       (temp_dir (at_process_end sample_request renamed_env initial_server))
     = Some (js ''audio_0.mp3.mp3'') \<and>
   stream_end renamed_env \<noteq> ResponseClosed \<and>
   files (at_process_end sample_request renamed_env initial_server) (js ''audio_0.mp3.mp3'')
     = Some (js ''ID3'') \<and>
   files (snd (download sample_request renamed_env initial_server)) (js ''audio_0.mp3.mp3'')
     = None \<and>
   files (snd (download sample_request renamed_env initial_server)) (js ''audio_0.mp3'')
     = None \<and>
   js ''audio_0.mp3.part'' \<noteq> expectedMp3 (now initial_server) \<and>
   files (at_process_end sample_request renamed_env initial_server) (js ''audio_0.mp3.part'')
     = Some (js ''xx'') \<and>
   files (snd (download sample_request renamed_env initial_server)) (js ''audio_0.mp3.part'')
     = Some (js ''xx'') \<and>
   starts_subprocess sample_request titled_env initial_server \<and> exits_zero titled_env \<and>
   produced_file (now initial_server)
       (temp_dir (at_process_end sample_request titled_env initial_server))
     = Some (js ''audio_0.mp3'') \<and>
   files (at_process_end sample_request titled_env initial_server) (js ''audio_0.mp3'')
     = Some (js ''ID3'') \<and>
   files (snd (download sample_request titled_env initial_server)) (js ''audio_0.mp3'') = None \<and>
   starts_subprocess sample_request closed_env initial_server \<and> exits_zero closed_env \<and>
   \<not> cancelled_before_sending sample_request closed_env initial_server \<and>
   stream_end closed_env = ResponseClosed \<and>
   files (snd (download sample_request closed_env initial_server)) (js ''audio_0.mp3'')
     = Some (js ''ID3'')"
proof -
  note inst = files_after_download [of _ _ initial_server]
  have e: "\<not> starts_subprocess empty_request titled_env initial_server"
    by (simp add: starts_subprocess_def truthy_def empty_request_def)
  from inst [of empty_request titled_env] e
  have 1: "temp_dir (snd (download empty_request titled_env initial_server))
             = temp_dir initial_server" by blast
  have n: "no_output sample_request failing_env initial_server"
    by (simp add: no_output_def sample_exits_zero)
  from inst [of sample_request failing_env] sample_starts(3) n
  have "files (snd (download sample_request failing_env initial_server))
          = (files (at_process_end sample_request failing_env initial_server))
              (expectedMp3 (now initial_server) := None)" by blast
  then have 2: "files (snd (download sample_request failing_env initial_server))
      (js ''audio_0.mp3.part'') = Some (js ''xx'')"
    by (simp add: sample_expected files_def sample_dirs js_def)
  have p: "produced_file (now initial_server)
       (temp_dir (at_process_end sample_request renamed_env initial_server))
     = Some (js ''audio_0.mp3.mp3'')"
    by (simp add: sample_dirs sample_now sample_produced)
  have r: "stream_end renamed_env \<noteq> ResponseClosed" by (simp add: sample_defs)
  from inst [of sample_request renamed_env] sample_starts(5) sample_exits_zero(2) p r
  have 3: "files (snd (download sample_request renamed_env initial_server))
      = (files (at_process_end sample_request renamed_env initial_server))
          (js ''audio_0.mp3.mp3'' := None)" by blast
  have 4: "files (at_process_end sample_request renamed_env initial_server)
      (js ''audio_0.mp3.mp3'') = Some (js ''ID3'')"
    by (simp add: files_def sample_dirs js_def)
  have 5: "files (snd (download sample_request renamed_env initial_server))
      (js ''audio_0.mp3.mp3'') = None"
    "files (snd (download sample_request renamed_env initial_server)) (js ''audio_0.mp3'')
      = None"
    unfolding 3 by (simp_all add: files_def sample_dirs js_def)
  have g: "js ''audio_0.mp3.part'' \<noteq> expectedMp3 (now initial_server)"
    by (simp add: sample_expected js_def)
  have g': "produced_file (now initial_server)
       (temp_dir (at_process_end sample_request renamed_env initial_server))
     \<noteq> Some (js ''audio_0.mp3.part'')"
    unfolding p by (simp add: js_def)
  have o: "files (at_process_end sample_request renamed_env initial_server)
      (js ''audio_0.mp3.part'') = Some (js ''xx'')"
    by (simp add: files_def sample_dirs js_def)
  from inst [of sample_request renamed_env] sample_starts(5) g g'
  have "files (snd (download sample_request renamed_env initial_server))
          (js ''audio_0.mp3.part'')
      = files (at_process_end sample_request renamed_env initial_server)
          (js ''audio_0.mp3.part'')" by blast
  with o have 10: "files (snd (download sample_request renamed_env initial_server))
      (js ''audio_0.mp3.part'') = Some (js ''xx'')" by simp
  have q: "produced_file (now initial_server)
       (temp_dir (at_process_end sample_request titled_env initial_server))
     = Some (js ''audio_0.mp3'')"
    by (simp add: sample_dirs sample_now sample_produced)
  have t: "stream_end titled_env \<noteq> ResponseClosed" by (simp add: sample_defs)
  from inst [of sample_request titled_env] sample_starts(1) sample_exits_zero(1) q t
  have 6: "files (snd (download sample_request titled_env initial_server))
      = (files (at_process_end sample_request titled_env initial_server))
          (js ''audio_0.mp3'' := None)" by blast
  have 7: "files (at_process_end sample_request titled_env initial_server) (js ''audio_0.mp3'')
      = Some (js ''ID3'')"
    by (simp add: files_def sample_dirs)
  have 8: "files (snd (download sample_request titled_env initial_server)) (js ''audio_0.mp3'')
      = None"
    unfolding 6 by simp
  have q': "produced_file (now initial_server)
       (temp_dir (at_process_end sample_request closed_env initial_server))
     = Some (js ''audio_0.mp3'')"
    by (simp add: sample_dirs sample_now sample_produced)
  have c: "stream_end closed_env = ResponseClosed" by (simp add: sample_defs)
  from inst [of sample_request closed_env] sample_starts(7) sample_exits_zero(4) q'
    sample_not_marked_late(3) c
  have "files (snd (download sample_request closed_env initial_server))
      = (files (at_process_end sample_request closed_env initial_server))
          (js ''audio_0.mp3'' := None,
           expectedMp3 (now initial_server)
             := files (at_process_end sample_request closed_env initial_server)
                  (js ''audio_0.mp3''))" by blast
  then have 9: "files (snd (download sample_request closed_env initial_server))
      (js ''audio_0.mp3'') = Some (js ''ID3'')"
    by (simp add: sample_expected files_def sample_dirs)
  from e 1 sample_starts(1,3,5,7) n 2 sample_exits_zero(1,2,4) p r 4 5 g o 10 q 7 8
    sample_not_marked_late(3) c 9
  show ?thesis by blast
qed

text \<open>
  Claim C7, as stated: \<open>clearCancel\<close> after \<open>cancel\<close> restores the cancellation state of
  the session to what it was before the \<open>cancel\<close>. This fails for a session that was
  already marked, which ends unmarked, and for every session in that the timer scheduled
  by the \<open>cancel\<close> stays pending.
\<close>

theorem cancel_not_undone_counterexample:
  "session_1 \<in> cancelledSessions (cancel session_1 initial_server) \<and>
   session_1 \<notin> cancelledSessions
     (clearCancel session_1 (cancel session_1 (cancel session_1 initial_server))) \<and>
   timers initial_server = [] \<and>
   timers (clearCancel session_1 (cancel session_1 initial_server)) = [(300000, session_1)]"
  using sample_session by (simp add: cancel_def clearCancel_def initial_server_def)

text \<open>
  Claim C7, amended. For a session identifier (a non-empty string): after \<open>cancel\<close>
  followed by \<open>clearCancel\<close> the session is not marked and the marks of all other
  sessions are as before the \<open>cancel\<close>, whether or not the session was marked before; the
  timer that the \<open>cancel\<close> scheduled is still pending. A download call with a URL on the
  session then passes the check at entry; when no further cancel request for the session
  arrives during the call, it starts the subprocess, is not marked at the end of the
  subprocess, and is not answered with the cancelled status.
\<close>

theorem clear_cancel_after_cancel:
  assumes "truthy sid"
  shows "cancelledSessions (clearCancel sid (cancel sid st)) = cancelledSessions st - {sid} \<and>
         timers (clearCancel sid (cancel sid st)) = timers st @ [(now st + 5 * 60 * 1000, sid)] \<and>
         (truthy (url req) \<and> sessionId req = sid \<longrightarrow>
            \<not> cancelled_at_entry req (clearCancel sid (cancel sid st)) \<and>
            (Cancel sid \<notin> set (during_title env) \<and> Cancel sid \<notin> set (during_download env) \<longrightarrow>
               starts_subprocess req env (clearCancel sid (cancel sid st)) \<and>
               \<not> cancelled_before_sending req env (clearCancel sid (cancel sid st)) \<and>
               status_code (fst (download req env (clearCancel sid (cancel sid st)))) \<noteq> 499))"
proof (intro conjI impI)
  let ?st = "clearCancel sid (cancel sid st)"
  show s: "cancelledSessions ?st = cancelledSessions st - {sid}"
    using assms by (auto simp: clearCancel_def cancel_def)
  show "timers ?st = timers st @ [(now st + 5 * 60 * 1000, sid)]"
    using assms by (simp add: clearCancel_def cancel_def)
  assume r: "truthy (url req) \<and> sessionId req = sid"
  with s show "\<not> cancelled_at_entry req ?st" by (simp add: cancelled_at_entry_def)
  assume e: "Cancel sid \<notin> set (during_title env) \<and> Cancel sid \<notin> set (during_download env)"
  from r s have n: "sessionId req \<notin> cancelledSessions ?st" by simp
  from r have u: "truthy (url req)" by simp
  from e r have q:
    "Cancel (sessionId req) \<notin> set (during_title env) \<or> \<not> truthy (sessionId req)"
    "Cancel (sessionId req) \<notin> set (during_download env) \<or> \<not> truthy (sessionId req)"
    by simp_all
  show p1: "starts_subprocess req env ?st" using u n q by (rule download_passes(1))
  show p2: "\<not> cancelled_before_sending req env ?st" using u n q by (rule download_passes(2))
  from p1 p2 show "status_code (fst (download req env ?st)) \<noteq> 499"
    by (rule started_not_cancelled)
qed

theorem clear_cancel_after_cancel_witness:
  "truthy session_1 \<and>
   truthy (url sample_request) \<and> sessionId sample_request = session_1 \<and>
   Cancel session_1 \<notin> set (during_title titled_env) \<and>
   Cancel session_1 \<notin> set (during_download titled_env) \<and>
   session_1 \<in> cancelledSessions (cancel session_1 initial_server) \<and>
   cancelledSessions (clearCancel session_1 (cancel session_1 initial_server)) = {} \<and>
   timers (clearCancel session_1 (cancel session_1 initial_server)) = [(300000, session_1)] \<and>
   starts_subprocess sample_request titled_env
     (clearCancel session_1 (cancel session_1 initial_server)) \<and>
   status_code (fst (download sample_request titled_env
                       (clearCancel session_1 (cancel session_1 initial_server)))) \<noteq> 499"
proof -
  note inst = clear_cancel_after_cancel [OF sample_session, of initial_server sample_request
    titled_env]
  have b: "sessionId sample_request = session_1" by (simp add: sample_request_def)
  have c: "Cancel session_1 \<notin> set (during_title titled_env)"
    and d: "Cancel session_1 \<notin> set (during_download titled_env)"
    by (simp_all add: titled_env_def)
  have e: "session_1 \<in> cancelledSessions (cancel session_1 initial_server)"
    using sample_session by (simp add: cancel_def)
  from inst have "cancelledSessions (clearCancel session_1 (cancel session_1 initial_server))
      = cancelledSessions initial_server - {session_1}" by blast
  then have 1: "cancelledSessions (clearCancel session_1 (cancel session_1 initial_server)) = {}"
    by (simp add: initial_server_def)
  from inst have "timers (clearCancel session_1 (cancel session_1 initial_server))
      = timers initial_server @ [(now initial_server + 5 * 60 * 1000, session_1)]" by blast
  then have 2: "timers (clearCancel session_1 (cancel session_1 initial_server))
      = [(300000, session_1)]"
    by (simp add: initial_server_def)
  from inst sample_url b c d
  have 3: "starts_subprocess sample_request titled_env
     (clearCancel session_1 (cancel session_1 initial_server))"
    and 4: "status_code (fst (download sample_request titled_env
                       (clearCancel session_1 (cancel session_1 initial_server)))) \<noteq> 499"
    by blast+
  from sample_session sample_url b c d e 1 2 3 4 show ?thesis by blast
qed

text \<open>
  Claim C9. The call is answered with status 400 \<open>URL is required\<close> exactly when the URL
  is missing (absent or empty, the values for which \<open>!url\<close> holds), and then nothing of
  the server state has changed. A call with a URL and without a session identifier, in a
  state of the server in which only truthy identifiers are marked (every state the server
  can be in), runs the code after the subprocess: it is never answered with the cancelled
  status, whatever cancel requests arrive in the meantime, its process is not recorded in
  \<open>activeProcesses\<close>, and a process that was neither signalled nor recorded before is
  not signalled by any request arriving while it runs.
\<close>

theorem only_url_is_required:
  "(fst (download req env st) = Json 400 (js ''URL is required'') None \<longleftrightarrow> \<not> truthy (url req)) \<and>
   (\<not> truthy (url req) \<longrightarrow> snd (download req env st) = st) \<and>
   (truthy (url req) \<and> \<not> truthy (sessionId req) \<and> server_inv st \<longrightarrow>
      download req env st =
        after_process req env (now st) (videoTitle (now st) (title_stdout env))
          (at_process_end req env st) \<and>
      status_code (fst (download req env st)) \<noteq> 499 \<and>
      activeProcesses (at_process_end req env st) = activeProcesses st \<and>
      (pid env \<notin> signalled st \<and> pid env \<notin> ran (activeProcesses st) \<longrightarrow>
         pid env \<notin> signalled (at_process_end req env st)))"
proof (intro conjI impI)
  show "fst (download req env st) = Json 400 (js ''URL is required'') None \<longleftrightarrow> \<not> truthy (url req)"
    by (simp add: download_def Let_def cancelled_response_def after_process_def
        send_file_def catch_block_def
        split: process_end.splits option.splits stream_end.splits)
  show "snd (download req env st) = st" if "\<not> truthy (url req)"
    using that by (simp add: download_def)
next
  assume a: "truthy (url req) \<and> \<not> truthy (sessionId req) \<and> server_inv st"
  then have n1: "sessionId req \<notin> cancelledSessions st" by (simp add: falsy_never_cancelled)
  from a have "server_inv (run_events (during_title env) st)"
    by (simp add: server_inv_run_events)
  with a have n2: "\<not> cancelled_after_title req env st"
    by (simp add: cancelled_after_title_def falsy_never_cancelled)
  from a n1 n2 have s: "starts_subprocess req env st"
    by (simp add: starts_subprocess_def cancelled_at_entry_def)
  then show "download req env st =
      after_process req env (now st) (videoTitle (now st) (title_stdout env))
        (at_process_end req env st)"
    by (rule download_started)
  show "status_code (fst (download req env st)) \<noteq> 499"
    using a n1 by (intro download_not_cancelled) auto
  show "activeProcesses (at_process_end req env st) = activeProcesses st"
    using a by (simp add: at_process_end_def while_running_def)
  show "pid env \<notin> signalled (at_process_end req env st)"
    if f: "pid env \<notin> signalled st \<and> pid env \<notin> ran (activeProcesses st)"
  proof -
    let ?st1 = "run_events (during_title env) st"
    let ?st2 = "?st1\<lparr>temp_dir := write_files (tool_files env) (temp_dir ?st1)\<rparr>"
    have "signalled (run_events (during_download env) ?st2)
            \<subseteq> signalled ?st2 \<union> ran (activeProcesses ?st2)"
      by (rule run_events_signalled)
    moreover have "signalled ?st2 = signalled ?st1" "activeProcesses ?st2 = activeProcesses st"
      by simp_all
    moreover have "signalled ?st1 \<subseteq> signalled st \<union> ran (activeProcesses st)"
      by (rule run_events_signalled)
    ultimately have "signalled (run_events (during_download env) ?st2)
                       \<subseteq> signalled st \<union> ran (activeProcesses st)"
      by auto
    moreover have "at_process_end req env st = run_events (during_download env) ?st2"
      using a by (simp add: at_process_end_def while_running_def)
    ultimately show ?thesis using f by auto
  qed
qed

theorem only_url_is_required_witness:
  "\<not> truthy (url empty_request) \<and>
   fst (download empty_request titled_env initial_server) = Json 400 (js ''URL is required'') None \<and>
   snd (download empty_request titled_env initial_server) = initial_server \<and>
   truthy (url anonymous_request) \<and> \<not> truthy (sessionId anonymous_request) \<and>
   server_inv initial_server \<and>
   pid cancel_anonymous_env \<notin> signalled initial_server \<and>
   pid cancel_anonymous_env \<notin> ran (activeProcesses initial_server) \<and>
   status_code (fst (download anonymous_request cancel_anonymous_env initial_server)) \<noteq> 499 \<and>
   pid cancel_anonymous_env
     \<notin> signalled (at_process_end anonymous_request cancel_anonymous_env initial_server)"
proof -
  have a: "\<not> truthy (url empty_request)" by (simp add: truthy_def empty_request_def)
  have b: "truthy (url anonymous_request)" "\<not> truthy (sessionId anonymous_request)"
    by (simp_all add: truthy_def anonymous_request_def js_def)
  have c: "pid cancel_anonymous_env \<notin> signalled initial_server"
    "pid cancel_anonymous_env \<notin> ran (activeProcesses initial_server)"
    by (simp_all add: initial_server_def)
  from only_url_is_required [of empty_request titled_env initial_server] a
  have 1: "fst (download empty_request titled_env initial_server)
             = Json 400 (js ''URL is required'') None"
    and 2: "snd (download empty_request titled_env initial_server) = initial_server"
    by blast+
  from only_url_is_required [of anonymous_request cancel_anonymous_env initial_server]
    b c server_inv_initial
  have 3: "status_code (fst (download anonymous_request cancel_anonymous_env initial_server))
             \<noteq> 499"
    and 4: "pid cancel_anonymous_env
              \<notin> signalled (at_process_end anonymous_request cancel_anonymous_env initial_server)"
    by blast+
  from a b c server_inv_initial 1 2 3 4 show ?thesis by blast
qed

lemma elapse_fires:
  "(d, sid) \<in> set (timers st) \<Longrightarrow> d \<le> now st + n \<Longrightarrow> sid \<notin> cancelledSessions (elapse n st)"
  by (force simp: elapse_def Let_def)

lemma elapse_keeps:
  "sid \<in> cancelledSessions st \<Longrightarrow>
   \<forall>(d, s) \<in> set (timers st). s = sid \<longrightarrow> now st + n < d \<Longrightarrow>
   sid \<in> cancelledSessions (elapse n st)"
  by (auto simp: elapse_def Let_def)

lemma now_cancel_clear_cancel:
  "truthy sid \<Longrightarrow> now (cancel_clear_cancel sid a b st) = now st + a + b"
  by (simp add: cancel_clear_cancel_def cancel_def clearCancel_def elapse_def Let_def)

lemma timers_cancel_clear_cancel:
  assumes "truthy sid" "a + b < 300000"
  shows "timers (cancel_clear_cancel sid a b st) =
           filter (\<lambda>(d, s). \<not> d \<le> now st + a + b) (timers st)
             @ [(now st + 300000, sid), (now st + a + b + 300000, sid)]"
  using assms
  by (auto simp: cancel_clear_cancel_def cancel_def clearCancel_def elapse_def Let_def
      intro!: filter_cong)

text \<open>
  Claim C10. A \<open>cancel\<close> call with a session identifier appends a timer of its own, due
  five minutes after the call, whatever timers are pending. For \<open>cancel\<close>, \<open>clearCancel\<close>,
  \<open>cancel\<close> on a session without older timers, the second \<open>cancel\<close> coming \<open>a + b\<close>
  milliseconds after the first with \<open>0 < a + b < 300000\<close>: the session is marked after the
  second \<open>cancel\<close>, stays marked until the timer of the first call is due, and is unmarked
  when that timer fires, \<open>300000 - (a + b)\<close> milliseconds after the second \<open>cancel\<close>, which
  is less than five minutes.
\<close>

theorem stale_timer_clears_later_cancel:
  assumes "truthy sid" and "0 < a + b" and "a + b < 300000"
    and "sid \<notin> snd ` set (timers st)"
  shows "timers (cancel sid st) = timers st @ [(now st + 5 * 60 * 1000, sid)] \<and>
         sid \<in> cancelledSessions (cancel_clear_cancel sid a b st) \<and>
         (\<forall>n < 300000 - (a + b).
            sid \<in> cancelledSessions (elapse n (cancel_clear_cancel sid a b st))) \<and>
         sid \<notin> cancelledSessions (elapse (300000 - (a + b)) (cancel_clear_cancel sid a b st)) \<and>
         300000 - (a + b) < 5 * 60 * 1000"
proof (intro conjI allI impI)
  let ?st = "cancel_clear_cancel sid a b st"
  show "timers (cancel sid st) = timers st @ [(now st + 5 * 60 * 1000, sid)]"
    using assms(1) by (simp add: cancel_def)
  show m: "sid \<in> cancelledSessions ?st"
    using assms(1) by (simp add: cancel_clear_cancel_def cancel_def)
  show "sid \<in> cancelledSessions (elapse n ?st)" if "n < 300000 - (a + b)" for n
  proof (rule elapse_keeps [OF m])
    have "\<And>d. (d, sid) \<notin> set (timers st)" using assms(4) by force
    then show "\<forall>(d, s)\<in>set (timers ?st). s = sid \<longrightarrow> now ?st + n < d"
      using assms(1,3) that by (auto simp: timers_cancel_clear_cancel now_cancel_clear_cancel)
  qed
  show "sid \<notin> cancelledSessions (elapse (300000 - (a + b)) ?st)"
  proof (rule elapse_fires)
    show "(now st + 300000, sid) \<in> set (timers ?st)"
      using assms by (simp add: timers_cancel_clear_cancel)
    show "now st + 300000 \<le> now ?st + (300000 - (a + b))"
      using assms by (simp add: now_cancel_clear_cancel)
  qed
  show "300000 - (a + b) < 5 * 60 * 1000" using assms by simp
qed

theorem stale_timer_clears_later_cancel_witness:
  "truthy session_1 \<and> (0::nat) < 1000 + 2000 \<and> (1000::nat) + 2000 < 300000 \<and>
   session_1 \<notin> snd ` set (timers initial_server) \<and>
   session_1 \<in> cancelledSessions (cancel_clear_cancel session_1 1000 2000 initial_server) \<and>
   session_1 \<in> cancelledSessions
     (elapse 296999 (cancel_clear_cancel session_1 1000 2000 initial_server)) \<and>
   session_1 \<notin> cancelledSessions
     (elapse 297000 (cancel_clear_cancel session_1 1000 2000 initial_server))"
proof -
  have t: "truthy session_1" by (rule sample_session)
  have p: "(0::nat) < 1000 + 2000" and q: "(1000::nat) + 2000 < 300000" by simp_all
  have f: "session_1 \<notin> snd ` set (timers initial_server)" by (simp add: initial_server_def)
  note inst = stale_timer_clears_later_cancel [OF t p q f]
  from inst have 1: "session_1 \<in> cancelledSessions
      (cancel_clear_cancel session_1 1000 2000 initial_server)" by blast
  from inst have "\<forall>n < 300000 - (1000 + 2000). session_1 \<in> cancelledSessions
      (elapse n (cancel_clear_cancel session_1 1000 2000 initial_server))" by blast
  then have 2: "session_1 \<in> cancelledSessions
      (elapse 296999 (cancel_clear_cancel session_1 1000 2000 initial_server))" by simp
  from inst have "session_1 \<notin> cancelledSessions
      (elapse (300000 - (1000 + 2000)) (cancel_clear_cancel session_1 1000 2000 initial_server))"
    by blast
  then have 3: "session_1 \<notin> cancelledSessions
      (elapse 297000 (cancel_clear_cancel session_1 1000 2000 initial_server))" by simp
  from t p q f 1 2 3 show ?thesis by blast
qed

section \<open>Properties of the batch driver\<close>

lemma set_status_length [simp]: "length (set_status i s ls) = length ls"
  by (simp add: set_status_def)

lemma set_status_error_length [simp]: "length (set_status_error i s e ls) = length ls"
  by (simp add: set_status_error_def)

lemma set_status_link [simp]: "map link (set_status i s ls) = map link ls"
  by (simp add: set_status_def map_update list_update_same_conv)
     (metis list_update_id map_update)

lemma set_status_error_link [simp]: "map link (set_status_error i s e ls) = map link ls"
  by (simp add: set_status_error_def map_update)
     (metis list_update_id map_update)

lemma set_status_nth:
  "j < length ls \<Longrightarrow> status (set_status i s ls ! j) = (if j = i then s else status (ls ! j))"
  by (simp add: set_status_def nth_list_update)

lemma set_status_error_nth:
  "j < length ls \<Longrightarrow>
   status (set_status_error i s e ls ! j) = (if j = i then s else status (ls ! j))"
  by (simp add: set_status_error_def nth_list_update)

lemma downloadSingle_length [simp]: "length (links (downloadSingle i e c)) = length (links c)"
  by (simp add: downloadSingle_def Let_def split: fetch_result.splits sum.splits)

lemma downloadSingle_link [simp]: "map link (links (downloadSingle i e c)) = map link (links c)"
  by (simp add: downloadSingle_def Let_def split: fetch_result.splits sum.splits)

lemma downloadSingle_requests:
  "requests (downloadSingle i e c) = requests c @ [link (links c ! i)]"
  by (simp add: downloadSingle_def Let_def split: fetch_result.splits sum.splits)

lemma downloadSingle_cancelledRef:
  "cancelledRef (downloadSingle i e c) = (cancelledRef c \<or> cancel_during_fetch e)"
  by (simp add: downloadSingle_def Let_def split: fetch_result.splits sum.splits)

text \<open>Without a cancellation, one call settles the status of its own link and of no
  other.\<close>

lemma downloadSingle_status:
  assumes "\<not> cancelledRef c" "\<not> cancel_during_fetch e" "j < length (links c)"
  shows "status (links (downloadSingle i e c) ! j)
           = (if j = i then outcome e else status (links c ! j))"
  using assms
  by (simp add: downloadSingle_def Let_def outcome_def set_status_nth set_status_error_nth
      split: fetch_result.splits sum.splits)

lemma reset_item_link [simp]: "link (reset_item l) = link l"
  by (simp add: reset_item_def)

text \<open>The loop from index \<open>i\<close>, when the user does not cancel: a request is posted for
  every remaining link, in order, and every remaining link gets the status that its own
  request determines.\<close>

lemma process_from_run:
  assumes "\<not> cancelledRef c" and "length (links c) = n"
    and "\<forall>j. i \<le> j \<and> j < n \<longrightarrow>
           \<not> cancel_during_fetch (envs j) \<and> \<not> cancel_during_delay (envs j)"
  shows "requests (process_from n i envs c) = requests c @ map link (drop i (links c)) \<and>
         length (links (process_from n i envs c)) = n \<and>
         (\<forall>j < n. status (links (process_from n i envs c) ! j) =
                   (if i \<le> j then outcome (envs j) else status (links c ! j)))"
  using assms
proof (induction n i envs c rule: process_from.induct)
  case (1 n i envs c)
  show ?case
  proof (cases "i < n")
    case False
    with 1(3) show ?thesis by (simp add: process_from.simps [of n i])
  next
    case True
    define c1 where "c1 = downloadSingle i (envs i) c"
    define c2 where "c2 = (if i < n - 1 \<and> \<not> cancelledRef c1
                     then c1\<lparr>cancelledRef := cancel_during_delay (envs i)\<rparr> else c1)"
    from True 1(4) have quiet: "\<not> cancel_during_fetch (envs i)" "\<not> cancel_during_delay (envs i)"
      by auto
    have r1: "\<not> cancelledRef c1"
      using 1(2) quiet by (simp add: c1_def downloadSingle_cancelledRef)
    have r2: "\<not> cancelledRef c2" using r1 quiet by (simp add: c2_def)
    have l2: "links c2 = links c1" and q2: "requests c2 = requests c1"
      by (simp_all add: c2_def)
    have len2: "length (links c2) = n" using 1(3) by (simp add: l2 c1_def)
    have step: "process_from n i envs c = process_from n (i + 1) envs c2"
      using True 1(2) by (simp add: process_from.simps [of n i] c1_def c2_def Let_def)
    have later: "\<forall>j. i + 1 \<le> j \<and> j < n \<longrightarrow>
        \<not> cancel_during_fetch (envs j) \<and> \<not> cancel_during_delay (envs j)"
      using 1(4) by auto
    have IH: "requests (process_from n (i + 1) envs c2)
                = requests c2 @ map link (drop (i + 1) (links c2)) \<and>
         length (links (process_from n (i + 1) envs c2)) = n \<and>
         (\<forall>j < n. status (links (process_from n (i + 1) envs c2) ! j) =
                   (if i + 1 \<le> j then outcome (envs j) else status (links c2 ! j)))"
      by (rule 1(1) [OF True 1(2) c1_def c2_def r2 len2 later])
    have "map link (drop (i + 1) (links c1)) = drop (i + 1) (map link (links c))"
      by (simp add: c1_def drop_map [symmetric])
    then have req: "requests c2 @ map link (drop (i + 1) (links c2))
                      = requests c @ map link (drop i (links c))"
      using True 1(3)
      by (simp add: l2 q2 c1_def downloadSingle_requests drop_map Cons_nth_drop_Suc [symmetric])
    have st: "status (links c2 ! j) = (if j = i then outcome (envs i) else status (links c ! j))"
      if "j < n" for j
      using that 1(2,3) quiet by (simp add: l2 c1_def downloadSingle_status)
    have "status (links (process_from n (i + 1) envs c2) ! j) =
            (if i \<le> j then outcome (envs j) else status (links c ! j))" if "j < n" for j
    proof (cases "j = i")
      case True
      with IH st [OF that] that show ?thesis by simp
    next
      case False
      then have "(i + 1 \<le> j) = (i \<le> j)" by auto
      with IH st [OF that] that False show ?thesis by simp
    qed
    with IH req show ?thesis unfolding step by simp
  qed
qed

lemma startProcessing_run:
  assumes "clear_cancel_resolves benv" and "not_cancelled (length (links c)) benv"
  shows "requests (startProcessing benv c) = requests c @ map link (links c) \<and>
         length (links (startProcessing benv c)) = length (links c) \<and>
         (\<forall>j < length (links c).
            status (links (startProcessing benv c) ! j) = outcome (link_envs benv j))"
proof (cases "length (links c) = 0")
  case True
  then show ?thesis by (simp add: startProcessing_def)
next
  case False
  let ?n = "length (links c)"
  let ?envs = "link_envs benv"
  let ?c0 = "c\<lparr>cancelledRef := cancel_during_clear benv, links := map reset_item (links c)\<rparr>"
  from False assms(1) have sp: "startProcessing benv c = process_from ?n 0 ?envs ?c0"
    by (simp add: startProcessing_def)
  have "requests (process_from ?n 0 ?envs ?c0) = requests ?c0 @ map link (drop 0 (links ?c0)) \<and>
        length (links (process_from ?n 0 ?envs ?c0)) = ?n \<and>
        (\<forall>j < ?n. status (links (process_from ?n 0 ?envs ?c0) ! j) =
                   (if 0 \<le> j then outcome (?envs j) else status (links ?c0 ! j)))"
    using assms(2) by (intro process_from_run) (simp_all add: not_cancelled_def)
  then show ?thesis unfolding sp by simp
qed

text \<open>
  Claim C8. In a batch that starts and that the user does not cancel, let the request for
  link \<open>k\<close> be answered by the download handler whose subprocess closed with a code other
  than 0. Then link \<open>k\<close> ends as failed; a request has been posted for every link of the
  batch, in order, the ones after \<open>k\<close> included; every link ends with the status that its
  own request determines; and when no other request fails, link \<open>k\<close> is the only failed
  one.
\<close>

theorem batch_continues_after_failure:
  assumes "clear_cancel_resolves benv"
    and "not_cancelled (length (links c)) benv"
    and "k < length (links c)"
    and "fetched (link_envs benv k) = Resolved (client_view (fst (download req denv st)))"
    and "starts_subprocess req denv st"
    and "process_end denv = Close code stderr" and "code \<noteq> Some 0"
  shows "status (links (startProcessing benv c) ! k) = FAILED \<and>
         requests (startProcessing benv c) = requests c @ map link (links c) \<and>
         length (links (startProcessing benv c)) = length (links c) \<and>
         (\<forall>j < length (links c).
            status (links (startProcessing benv c) ! j) = outcome (link_envs benv j)) \<and>
         ((\<forall>j < length (links c). j \<noteq> k \<longrightarrow> outcome (link_envs benv j) \<noteq> FAILED) \<longrightarrow>
            length (filter (\<lambda>l. status l = FAILED) (links (startProcessing benv c))) = 1)"
proof -
  let ?L = "links (startProcessing benv c)"
  note run = startProcessing_run [OF assms(1,2)]
  have "fst (download req denv st) =
           Json 500 (js ''Failed to download/convert video'') (Some (exit_message code stderr))"
    using assms(5,6,7) by (rule tool_failure_response)
  with assms(4) have k: "outcome (link_envs benv k) = FAILED"
    by (simp add: outcome_def client_view_def ok_def)
  have one: "length (filter (\<lambda>l. status l = FAILED) ?L) = 1"
    if others: "\<forall>j < length (links c). j \<noteq> k \<longrightarrow> outcome (link_envs benv j) \<noteq> FAILED"
  proof -
    have "{i. i < length ?L \<and> status (?L ! i) = FAILED} = {k}"
      using run k assms(3) others by auto
    then show ?thesis by (simp add: length_filter_conv_card)
  qed
  from run k assms(3) one show ?thesis by simp
qed

theorem batch_continues_after_failure_witness:
  "clear_cancel_resolves sample_batch \<and>
   not_cancelled (length (links sample_client)) sample_batch \<and>
   (1::nat) < length (links sample_client) \<and>
   fetched (link_envs sample_batch 1)
     = Resolved (client_view (fst (download sample_request failing_env initial_server))) \<and>
   starts_subprocess sample_request failing_env initial_server \<and>
   process_end failing_env = Close (Some 1) (js ''ERROR'') \<and> Some (1::int) \<noteq> Some 0 \<and>
   status (links (startProcessing sample_batch sample_client) ! 1) = FAILED \<and>
   requests (startProcessing sample_batch sample_client)
     = [(js ''https://youtu.be/a''), (js ''https://youtu.be/b''), (js ''https://youtu.be/c'')] \<and>
   map status (links (startProcessing sample_batch sample_client)) = [SAVED, FAILED, SAVED]"
proof -
  have r: "clear_cancel_resolves sample_batch" by (simp add: sample_batch_def)
  have a: "not_cancelled (length (links sample_client)) sample_batch"
    by (simp add: not_cancelled_def sample_batch_def sample_envs_def)
  have b: "(1::nat) < length (links sample_client)"
    by (simp add: sample_client_def sample_links_def)
  have c: "fetched (link_envs sample_batch 1)
     = Resolved (client_view (fst (download sample_request failing_env initial_server)))"
    by (simp add: sample_batch_def sample_envs_def)
  have d: "process_end failing_env = Close (Some 1) (js ''ERROR'')" by (simp add: failing_env_def)
  have e: "Some (1::int) \<noteq> Some 0" by simp
  have f: "requests sample_client @ map link (links sample_client)
             = [(js ''https://youtu.be/a''), (js ''https://youtu.be/b''), (js ''https://youtu.be/c'')]"
    by (simp add: sample_client_def sample_links_def)
  have g: "map status (links (startProcessing sample_batch sample_client))
             = [SAVED, FAILED, SAVED]"
    by code_simp
  from batch_continues_after_failure [OF r a b c sample_starts(3) d e] f
  have "status (links (startProcessing sample_batch sample_client) ! 1) = FAILED \<and>
        requests (startProcessing sample_batch sample_client)
          = [(js ''https://youtu.be/a''), (js ''https://youtu.be/b''), (js ''https://youtu.be/c'')]"
    by simp
  with r a b c d e g sample_starts(3) show ?thesis by blast
qed

end
